theory Spec2Isabelle
  imports Main "HOL-Library.AList" "HOL-Library.Sublist"
begin

section \<open>Python values used by \<^verbatim>\<open>mini_agent/tools/mcp_loader.py\<close>\<close>

text \<open>
  The errors an awaited call can raise, by the classes the \<^verbatim>\<open>except\<close> clauses of the
  source tell apart. Each carries its \<^verbatim>\<open>str(e)\<close>.
  \<^item> \<open>CancelledError\<close>: \<^verbatim>\<open>asyncio.CancelledError\<close>, a \<^verbatim>\<open>BaseException\<close> that is not an
    \<^verbatim>\<open>Exception\<close>;
  \<^item> \<open>RuntimeError\<close>: an instance of \<^verbatim>\<open>RuntimeError\<close>;
  \<^item> \<open>OtherException\<close>: an instance of \<^verbatim>\<open>Exception\<close> that is not a \<^verbatim>\<open>RuntimeError\<close>;
  \<^item> \<open>OtherBaseException\<close>: every other \<^verbatim>\<open>BaseException\<close> (\<^verbatim>\<open>KeyboardInterrupt\<close>,
    \<^verbatim>\<open>SystemExit\<close>, ...).
\<close>

datatype exc =
    CancelledError string
  | RuntimeError string
  | OtherException string
  | OtherBaseException string

fun str_exc :: "exc \<Rightarrow> string" where
  "str_exc (CancelledError m) = m"
| "str_exc (RuntimeError m) = m"
| "str_exc (OtherException m) = m"
| "str_exc (OtherBaseException m) = m"

text \<open>\<^verbatim>\<open>except Exception\<close> matches exactly these.\<close>

fun is_Exception :: "exc \<Rightarrow> bool" where
  "is_Exception (CancelledError m) = False"
| "is_Exception (RuntimeError m) = True"
| "is_Exception (OtherException m) = True"
| "is_Exception (OtherBaseException m) = False"

fun is_CancelledError :: "exc \<Rightarrow> bool" where
  "is_CancelledError (CancelledError m) = True"
| "is_CancelledError (RuntimeError m) = False"
| "is_CancelledError (OtherException m) = False"
| "is_CancelledError (OtherBaseException m) = False"

text \<open>What a call does: it returns a value or it raises.\<close>

datatype 'a outcome = Returns 'a | Raises exc

text \<open>\<^verbatim>\<open>value.startswith(p)\<close> and \<^verbatim>\<open>sub in s\<close> on strings.\<close>

definition startswith :: "string \<Rightarrow> string \<Rightarrow> bool" where
  "startswith s p = prefix p s"

fun py_in :: "string \<Rightarrow> string \<Rightarrow> bool" where
  "py_in sub [] = (sub = [])"
| "py_in sub (c # cs) = (prefix sub (c # cs) \<or> py_in sub cs)"

text \<open>\<^verbatim>\<open>sep.join(parts)\<close>.\<close>

fun py_join :: "string \<Rightarrow> string list \<Rightarrow> string" where
  "py_join sep [] = []"
| "py_join sep [p] = p"
| "py_join sep (p # q # ps) = p @ sep @ py_join sep (q # ps)"

section \<open>Resolution of the configured environment\<close>

text \<open>
  Lines 247 to 259 of \<^verbatim>\<open>load_mcp_tools_async\<close>. A dict is an association list in
  insertion order; \<^verbatim>\<open>resolved_env[key] = v\<close> is \<open>AList.update\<close>. \<open>environ\<close> is
  \<^verbatim>\<open>os.environ\<close>, so \<^verbatim>\<open>os.getenv(key)\<close> is \<open>environ key\<close>.
  \<^verbatim>\<open>
  if not value or value.startswith("YOUR_") or value.startswith("your-"):
      env_value = os.getenv(key)
      if env_value: resolved_env[key] = env_value
      else:         resolved_env[key] = value
  else:
      resolved_env[key] = value
  \<close>
\<close>

definition resolve_value :: "(string \<rightharpoonup> string) \<Rightarrow> string \<Rightarrow> string \<Rightarrow> string" where
  "resolve_value environ key val =
     (if val = [] \<or> startswith val ''YOUR_'' \<or> startswith val ''your-'' then
        (case environ key of
           None \<Rightarrow> val
         | Some env_value \<Rightarrow> if env_value \<noteq> [] then env_value else val)
      else val)"

fun resolve_env ::
  "(string \<rightharpoonup> string) \<Rightarrow> (string \<times> string) list \<Rightarrow> (string \<times> string) list \<Rightarrow> (string \<times> string) list"
where
  "resolve_env environ [] resolved_env = resolved_env"
| "resolve_env environ ((key, val) # items) resolved_env =
     resolve_env environ items (AList.update key (resolve_value environ key val) resolved_env)"

section \<open>The data model\<close>

text \<open>A JSON document: a parameter schema, the keyword arguments of a call.\<close>

datatype json =
    JNull
  | JBool bool
  | JNum int
  | JStr string
  | JArr "json list"
  | JObj "(string \<times> json) list"

text \<open>A \<^verbatim>\<open>ClientSession\<close>, identified by the server it talks to.\<close>

datatype session_ref = Session string

text \<open>
  One entry of \<^verbatim>\<open>tools_list.tools\<close>. \<open>d_description\<close> may be \<^verbatim>\<open>None\<close>;
  \<open>d_inputSchema\<close> is \<open>None\<close> when the attribute is missing (\<^verbatim>\<open>hasattr\<close> is false).
\<close>

record tool_descriptor =
  d_name :: string
  d_description :: "string option"
  d_inputSchema :: "json option"

text \<open>The fields of \<^verbatim>\<open>MCPTool\<close>.\<close>

record mcp_tool =
  t_name :: string
  t_description :: string
  t_parameters :: json
  t_session :: session_ref

text \<open>
  One item of \<^verbatim>\<open>result.content\<close>: an item with a \<^verbatim>\<open>text\<close> attribute, or any other
  item, which carries its \<^verbatim>\<open>str(item)\<close>.
\<close>

datatype fragment = TextItem string | OtherItem string

text \<open>
  The value \<^verbatim>\<open>call_tool\<close> returns. \<open>r_isError\<close> is \<open>None\<close> when the attribute is
  missing.
\<close>

record call_result =
  r_content :: "fragment list"
  r_isError :: "bool option"

text \<open>
  Modelled from the spec: \<^verbatim>\<open>ToolResult\<close> is declared in \<^verbatim>\<open>tools/base.py\<close>, which is not
  among the sources. The spec's \<^verbatim>\<open>InvocationResult = { ok, content, errorMessage }\<close>, with
  the names of the keyword arguments \<^verbatim>\<open>execute\<close> passes.
\<close>

record tool_result =
  success :: bool
  content :: string
  error :: "string option"

text \<open>
  \<^verbatim>\<open>StdioServerParameters(command=..., args=..., env=...)\<close>. With a string, a list of
  strings and a dict of strings the constructor's validation accepts its arguments.
\<close>

record server_params =
  sp_command :: string
  sp_args :: "string list"
  sp_env :: "(string \<times> string) list option"

text \<open>
  What an \<^verbatim>\<open>AsyncExitStack\<close> holds: the contexts entered through it, the last entered
  first (the order in which \<^verbatim>\<open>aclose\<close> leaves them).
\<close>

datatype resource = StdioClient | ClientSession

text \<open>The fields of \<^verbatim>\<open>MCPServerConnection\<close>.\<close>

record connection =
  name :: string
  command :: string
  args :: "string list"
  env :: "(string \<times> string) list"
  session :: "session_ref option"
  exit_stack :: "resource list option"
  tools :: "mcp_tool list"

text \<open>One server entry of the configuration, as the \<^verbatim>\<open>get\<close> calls of lines 233 to 239 read it.\<close>

record server_config =
  cfg_disabled :: bool
  cfg_command :: "string option"
  cfg_args :: "string list"
  cfg_env :: "(string \<times> string) list"

text \<open>
  The configuration file at \<^verbatim>\<open>config_path\<close>: missing, unreadable (\<^verbatim>\<open>open\<close> or
  \<^verbatim>\<open>json.load\<close> raises), or holding the dict \<^verbatim>\<open>mcpServers\<close> (empty when the key is missing).
\<close>

datatype config_file =
    NotFound
  | Unreadable exc
  | Config "(string \<times> server_config) list"

section \<open>The world outside the module\<close>

text \<open>
  What the protocol library does for one launched server: the outcome of entering
  \<^verbatim>\<open>stdio_client\<close>, of entering \<^verbatim>\<open>ClientSession\<close>, of \<^verbatim>\<open>initialize\<close>, of \<^verbatim>\<open>list_tools\<close>,
  and of \<^verbatim>\<open>aclose\<close> on a stack that holds the given contexts.
\<close>

record behaviour =
  b_stdio_client :: "unit outcome"
  b_client_session :: "unit outcome"
  b_initialize :: "unit outcome"
  b_list_tools :: "tool_descriptor list outcome"
  b_aclose :: "resource list \<Rightarrow> unit outcome"

record world =
  environ :: "string \<rightharpoonup> string"
  server :: "string \<Rightarrow> server_params \<Rightarrow> behaviour"
  call_tool :: "session_ref \<Rightarrow> string \<Rightarrow> (string \<times> json) list \<Rightarrow> call_result outcome"

text \<open>The lines the module prints, by their format string.\<close>

datatype msg =
    MsgConnected string nat
    \<comment> \<open>\<^verbatim>\<open>Connected to MCP server '{name}' - loaded {n} tools\<close>\<close>
  | MsgTool string string
    \<comment> \<open>\<^verbatim>\<open>  - {tool.name}: {desc}...\<close>\<close>
  | MsgConnectFailed string exc
    \<comment> \<open>\<^verbatim>\<open>Failed to connect to MCP server '{name}': {e}\<close>\<close>
  | MsgTraceback
    \<comment> \<open>\<^verbatim>\<open>traceback.print_exc()\<close>\<close>
  | MsgConfigNotFound string
    \<comment> \<open>\<^verbatim>\<open>MCP config not found: {config_path}\<close>\<close>
  | MsgNoServers
    \<comment> \<open>\<^verbatim>\<open>No MCP servers configured\<close>\<close>
  | MsgSkipDisabled string
    \<comment> \<open>\<^verbatim>\<open>Skipping disabled server: {server_name}\<close>\<close>
  | MsgNoCommand string
    \<comment> \<open>\<^verbatim>\<open>No command specified for server: {server_name}\<close>\<close>
  | MsgTotal nat
    \<comment> \<open>\<^verbatim>\<open>Total MCP tools loaded: {n}\<close>\<close>
  | MsgLoadError exc
    \<comment> \<open>\<^verbatim>\<open>Error loading MCP config: {e}\<close>\<close>

text \<open>
  What a run does to the outside, in order: a printed line, or a call into the protocol
  library made for the named server (recorded when the call is made, whatever it does).
\<close>

datatype event =
    Print msg
  | EnterStdioClient string server_params
  | EnterClientSession string
  | Initialize string
  | ListTools string
  | Aclose string "resource list"

section \<open>\<^verbatim>\<open>MCPTool.execute\<close>\<close>

text \<open>
  The loop of lines 69 to 74: an item with a \<^verbatim>\<open>text\<close> attribute gives its text, any
  other item its \<^verbatim>\<open>str\<close>.
\<close>

fun content_parts :: "fragment list \<Rightarrow> string list" where
  "content_parts [] = []"
| "content_parts (TextItem t # items) = t # content_parts items"
| "content_parts (OtherItem s # items) = s # content_parts items"

text \<open>
  Lines 63 to 90. The whole body is inside \<^verbatim>\<open>try ... except Exception as e\<close>; an error
  that is not an \<^verbatim>\<open>Exception\<close> leaves \<^verbatim>\<open>execute\<close> as it is.
\<close>

definition execute :: "world \<Rightarrow> mcp_tool \<Rightarrow> (string \<times> json) list \<Rightarrow> tool_result outcome" where
  "execute w tool kwargs =
     (case call_tool w (t_session tool) (t_name tool) kwargs of
        Returns result \<Rightarrow>
          (let content_str = py_join [CHR 0x0A] (content_parts (r_content result));
               is_error = (case r_isError result of Some b \<Rightarrow> b | None \<Rightarrow> False)
           in Returns \<lparr>success = \<not> is_error, content = content_str,
                error = (if \<not> is_error then None else Some ''Tool returned error'')\<rparr>)
      | Raises e \<Rightarrow>
          if is_Exception e then
            Returns \<lparr>success = False, content = [],
              error = Some (''MCP tool execution failed: '' @ str_exc e)\<rparr>
          else Raises e)"

section \<open>\<^verbatim>\<open>MCPServerConnection\<close>\<close>

text \<open>Lines 96 to 103: \<^verbatim>\<open>self.env = env or {}\<close>.\<close>

definition MCPServerConnection ::
  "string \<Rightarrow> string \<Rightarrow> string list \<Rightarrow> (string \<times> string) list option \<Rightarrow> connection"
where
  "MCPServerConnection nm cmd as env_arg =
     \<lparr>name = nm, command = cmd, args = as,
      env = (case env_arg of None \<Rightarrow> [] | Some e \<Rightarrow> e),
      session = None, exit_stack = None, tools = []\<rparr>"

text \<open>Lines 108 to 112: \<^verbatim>\<open>env=self.env if self.env else None\<close>.\<close>

definition server_params_of :: "connection \<Rightarrow> server_params" where
  "server_params_of c =
     \<lparr>sp_command = command c, sp_args = args c,
      sp_env = (if env c \<noteq> [] then Some (env c) else None)\<rparr>"

text \<open>
  \<^verbatim>\<open>await self.exit_stack.aclose()\<close> on a stack holding \<open>rs\<close>. A stack that holds nothing
  has nothing to leave and returns; otherwise the library decides.
\<close>

definition aclose :: "world \<Rightarrow> connection \<Rightarrow> resource list \<Rightarrow> unit outcome" where
  "aclose w c rs =
     (if rs = [] then Returns () else b_aclose (server w (name c) (server_params_of c)) rs)"

text \<open>
  Lines 137 to 144: one \<^verbatim>\<open>MCPTool\<close> per listed tool, with
  \<^verbatim>\<open>tool.inputSchema if hasattr(tool, 'inputSchema') else {}\<close> and \<^verbatim>\<open>tool.description or ""\<close>.
\<close>

definition wrap_tool :: "session_ref \<Rightarrow> tool_descriptor \<Rightarrow> mcp_tool" where
  "wrap_tool s tool =
     \<lparr>t_name = d_name tool,
      t_description = (case d_description tool of None \<Rightarrow> [] | Some d \<Rightarrow> d),
      t_parameters = (case d_inputSchema tool of None \<Rightarrow> JObj [] | Some p \<Rightarrow> p),
      t_session = s\<rparr>"

text \<open>Lines 148 to 150: the line printed for one tool.\<close>

definition tool_line :: "mcp_tool \<Rightarrow> event" where
  "tool_line tool =
     Print (MsgTool (t_name tool)
       (if length (t_description tool) > 60 then take 60 (t_description tool)
        else t_description tool))"

text \<open>
  Lines 107 to 151, the body of the \<^verbatim>\<open>try\<close> of \<^verbatim>\<open>connect\<close>: the outcome, the connection as
  the body left it, and what it did.
\<close>

definition connect_try :: "world \<Rightarrow> connection \<Rightarrow> unit outcome \<times> connection \<times> event list" where
  "connect_try w c =
     (let params = server_params_of c;
          b = server w (name c) params;
          c1 = c\<lparr>exit_stack := Some []\<rparr>;
          ev1 = [EnterStdioClient (name c) params]
      in case b_stdio_client b of
           Raises e \<Rightarrow> (Raises e, c1, ev1)
         | Returns _ \<Rightarrow>
      (let c2 = c1\<lparr>exit_stack := Some [StdioClient]\<rparr>;
           ev2 = ev1 @ [EnterClientSession (name c)]
       in case b_client_session b of
            Raises e \<Rightarrow> (Raises e, c2, ev2)
          | Returns _ \<Rightarrow>
      (let s = Session (name c);
           c3 = c2\<lparr>exit_stack := Some [ClientSession, StdioClient], session := Some s\<rparr>;
           ev3 = ev2 @ [Initialize (name c)]
       in case b_initialize b of
            Raises e \<Rightarrow> (Raises e, c3, ev3)
          | Returns _ \<Rightarrow>
      (let ev4 = ev3 @ [ListTools (name c)]
       in case b_list_tools b of
            Raises e \<Rightarrow> (Raises e, c3, ev4)
          | Returns tools_list \<Rightarrow>
      (let c4 = c3\<lparr>tools := tools c3 @ map (wrap_tool s) tools_list\<rparr>
       in (Returns (), c4,
           ev4 @ Print (MsgConnected (name c) (length (tools c4))) # map tool_line (tools c4)))))))"

text \<open>
  Lines 105 to 161. The handler of \<^verbatim>\<open>except Exception as e\<close> prints, calls \<^verbatim>\<open>aclose\<close> on
  the exit stack when there is one, clears it, prints the traceback and returns
  \<^verbatim>\<open>False\<close>. The call of \<^verbatim>\<open>aclose\<close> stands unguarded in the handler: what it raises
  leaves \<^verbatim>\<open>connect\<close> before the field is cleared. \<^verbatim>\<open>aclose\<close> pops every context off the
  stack before it raises, so the field then holds a stack that is empty.
\<close>

definition connect :: "world \<Rightarrow> connection \<Rightarrow> bool outcome \<times> connection \<times> event list" where
  "connect w c =
     (case connect_try w c of
        (Returns _, c', ev) \<Rightarrow> (Returns True, c', ev)
      | (Raises e, c', ev) \<Rightarrow>
          if is_Exception e then
            (let ev1 = ev @ [Print (MsgConnectFailed (name c') e)]
             in case exit_stack c' of
                  None \<Rightarrow> (Returns False, c', ev1 @ [Print MsgTraceback])
                | Some rs \<Rightarrow>
                    (case aclose w c' rs of
                       Raises e' \<Rightarrow>
                         (Raises e', c'\<lparr>exit_stack := Some []\<rparr>, ev1 @ [Aclose (name c') rs])
                     | Returns _ \<Rightarrow>
                         (Returns False, c'\<lparr>exit_stack := None\<rparr>,
                          ev1 @ [Aclose (name c') rs, Print MsgTraceback])))
          else (Raises e, c', ev))"

text \<open>
  Lines 163 to 187. An \<^verbatim>\<open>AsyncExitStack\<close> object is true whatever it holds, so
  \<^verbatim>\<open>if self.exit_stack\<close> asks whether the field is set. The \<^verbatim>\<open>finally\<close> clause clears both
  fields on every path.
\<close>

definition disconnect :: "world \<Rightarrow> connection \<Rightarrow> unit outcome \<times> connection \<times> event list" where
  "disconnect w c =
     (case exit_stack c of
        None \<Rightarrow> (Returns (), c, [])
      | Some rs \<Rightarrow>
          (let c' = c\<lparr>exit_stack := None, session := None\<rparr>;
               ev = [Aclose (name c) rs]
           in case aclose w c rs of
                Returns _ \<Rightarrow> (Returns (), c', ev)
              | Raises e \<Rightarrow>
                  (case e of
                     CancelledError m \<Rightarrow> (Returns (), c', ev)
                   | RuntimeError m \<Rightarrow>
                       if \<not> py_in ''cancel scope'' m \<and> \<not> py_in ''different task'' m
                       then (Raises e, c', ev)
                       else (Returns (), c', ev)
                   | OtherException m \<Rightarrow> (Returns (), c', ev)
                   | OtherBaseException m \<Rightarrow> (Raises e, c', ev))))"

section \<open>\<^verbatim>\<open>load_mcp_tools_async\<close> and \<^verbatim>\<open>cleanup_mcp_connections\<close>\<close>

text \<open>
  The loop of lines 232 to 266 over \<^verbatim>\<open>mcp_servers.items()\<close>, with the global
  \<^verbatim>\<open>_mcp_connections\<close> and the local \<^verbatim>\<open>all_tools\<close> passed along. \<^verbatim>\<open>not command\<close> holds for
  a missing and for an empty command. An error that \<^verbatim>\<open>connect\<close> raises ends the loop.
\<close>

fun connect_servers ::
  "world \<Rightarrow> (string \<times> server_config) list \<Rightarrow> connection list \<Rightarrow> mcp_tool list \<Rightarrow>
   mcp_tool list outcome \<times> connection list \<times> event list"
where
  "connect_servers w [] mcp_connections all_tools = (Returns all_tools, mcp_connections, [])"
| "connect_servers w ((server_name, sc) # rest) mcp_connections all_tools =
     (if cfg_disabled sc then
        (case connect_servers w rest mcp_connections all_tools of
           (r, conns, ev) \<Rightarrow> (r, conns, Print (MsgSkipDisabled server_name) # ev))
      else if cfg_command sc = None \<or> cfg_command sc = Some [] then
        (case connect_servers w rest mcp_connections all_tools of
           (r, conns, ev) \<Rightarrow> (r, conns, Print (MsgNoCommand server_name) # ev))
      else
        (let resolved_env = resolve_env (environ w) (cfg_env sc) [];
             conn = MCPServerConnection server_name (the (cfg_command sc)) (cfg_args sc)
                      (Some resolved_env)
         in case connect w conn of
              (Raises e, conn', ev) \<Rightarrow> (Raises e, mcp_connections, ev)
            | (Returns ok, conn', ev) \<Rightarrow>
                (case (if ok then connect_servers w rest (mcp_connections @ [conn'])
                                    (all_tools @ tools conn')
                       else connect_servers w rest mcp_connections all_tools) of
                   (r, conns, ev') \<Rightarrow> (r, conns, ev @ ev'))))"

text \<open>
  Lines 194 to 276, from the state of the file at \<^verbatim>\<open>config_path\<close>. The handler of the outer
  \<^verbatim>\<open>except Exception\<close> prints and returns the empty list; \<^verbatim>\<open>_mcp_connections\<close> keeps what
  the loop appended before.
\<close>

definition load_mcp_tools_async ::
  "world \<Rightarrow> string \<Rightarrow> config_file \<Rightarrow> connection list \<Rightarrow>
   mcp_tool list outcome \<times> connection list \<times> event list"
where
  "load_mcp_tools_async w config_path file mcp_connections =
     (case file of
        NotFound \<Rightarrow> (Returns [], mcp_connections, [Print (MsgConfigNotFound config_path)])
      | Unreadable e \<Rightarrow>
          if is_Exception e
          then (Returns [], mcp_connections, [Print (MsgLoadError e), Print MsgTraceback])
          else (Raises e, mcp_connections, [])
      | Config mcp_servers \<Rightarrow>
          if mcp_servers = [] then (Returns [], mcp_connections, [Print MsgNoServers])
          else
            (case connect_servers w mcp_servers mcp_connections [] of
               (Returns all_tools, conns, ev) \<Rightarrow>
                 (Returns all_tools, conns, ev @ [Print (MsgTotal (length all_tools))])
             | (Raises e, conns, ev) \<Rightarrow>
                 if is_Exception e
                 then (Returns [], conns, ev @ [Print (MsgLoadError e), Print MsgTraceback])
                 else (Raises e, conns, ev)))"

text \<open>
  The loop of lines 286 to 292: \<^verbatim>\<open>disconnect\<close> on each connection under
  \<^verbatim>\<open>except (asyncio.CancelledError, Exception): pass\<close>. It returns the connections as the
  calls left them.
\<close>

fun disconnect_each ::
  "world \<Rightarrow> connection list \<Rightarrow> unit outcome \<times> connection list \<times> event list"
where
  "disconnect_each w [] = (Returns (), [], [])"
| "disconnect_each w (c # cs) =
     (case disconnect w c of
        (Raises e, c', ev) \<Rightarrow>
          if is_CancelledError e \<or> is_Exception e then
            (case disconnect_each w cs of (r, cs', ev') \<Rightarrow> (r, c' # cs', ev @ ev'))
          else (Raises e, c' # cs, ev)
      | (Returns _, c', ev) \<Rightarrow>
          (case disconnect_each w cs of (r, cs', ev') \<Rightarrow> (r, c' # cs', ev @ ev')))"

text \<open>Lines 279 to 293: the loop, then \<^verbatim>\<open>_mcp_connections.clear()\<close>.\<close>

definition cleanup_mcp_connections ::
  "world \<Rightarrow> connection list \<Rightarrow> unit outcome \<times> connection list \<times> event list"
where
  "cleanup_mcp_connections w mcp_connections =
     (case disconnect_each w mcp_connections of
        (Returns _, conns, ev) \<Rightarrow> (Returns (), [], ev)
      | (Raises e, conns, ev) \<Rightarrow> (Raises e, conns, ev))"

section \<open>Notions the properties are stated with\<close>

text \<open>
  The entries for which the loop of \<^verbatim>\<open>load_mcp_tools_async\<close> reaches \<^verbatim>\<open>connect\<close>: not
  disabled, with a non-empty command.
\<close>

definition attempted :: "(string \<times> server_config) list \<Rightarrow> (string \<times> server_config) list" where
  "attempted mcp_servers =
     filter (\<lambda>(server_name, sc).
       \<not> cfg_disabled sc \<and> cfg_command sc \<noteq> None \<and> cfg_command sc \<noteq> Some []) mcp_servers"

text \<open>The call of \<^verbatim>\<open>connect\<close> the loop makes for such an entry (lines 261 and 262).\<close>

definition attempt ::
  "world \<Rightarrow> string \<times> server_config \<Rightarrow> bool outcome \<times> connection \<times> event list"
where
  "attempt w entry =
     connect w (MCPServerConnection (fst entry) (the (cfg_command (snd entry)))
       (cfg_args (snd entry)) (Some (resolve_env (environ w) (cfg_env (snd entry)) [])))"

text \<open>
  What the protocol library does for the server such an entry launches, and the condition
  on it under which \<^verbatim>\<open>connect\<close> has nothing to let through: each of the four calls of
  the \<^verbatim>\<open>try\<close> body returns or raises an error of class \<^verbatim>\<open>Exception\<close>, and \<^verbatim>\<open>aclose\<close>
  returns on a stack that holds what the body had entered.
\<close>

definition launched :: "world \<Rightarrow> string \<times> server_config \<Rightarrow> behaviour" where
  "launched w entry =
     server w (fst entry)
       (server_params_of
          (MCPServerConnection (fst entry) (the (cfg_command (snd entry)))
             (cfg_args (snd entry)) (Some (resolve_env (environ w) (cfg_env (snd entry)) []))))"

fun raises_Exception_only :: "'a outcome \<Rightarrow> bool" where
  "raises_Exception_only (Returns x) = True"
| "raises_Exception_only (Raises e) = is_Exception e"

definition connect_library_ok :: "behaviour \<Rightarrow> bool" where
  "connect_library_ok b =
     (raises_Exception_only (b_stdio_client b) \<and> raises_Exception_only (b_client_session b)
      \<and> raises_Exception_only (b_initialize b) \<and> raises_Exception_only (b_list_tools b)
      \<and> b_aclose b [StdioClient] = Returns ()
      \<and> b_aclose b [ClientSession, StdioClient] = Returns ())"

text \<open>The attempted entries whose \<^verbatim>\<open>connect\<close> returns \<^verbatim>\<open>True\<close>, in the order of the attempts.\<close>

definition connected :: "world \<Rightarrow> (string \<times> server_config) list \<Rightarrow> (string \<times> server_config) list" where
  "connected w mcp_servers =
     filter (\<lambda>entry. fst (attempt w entry) = Returns True) (attempted mcp_servers)"

text \<open>The calls into the protocol library among the events of a run: all but the printed lines.\<close>

fun library_calls :: "event list \<Rightarrow> event list" where
  "library_calls [] = []"
| "library_calls (Print m # evs) = library_calls evs"
| "library_calls (e # evs) = e # library_calls evs"

text \<open>
  The spec's words for the content of a result: each fragment contributes its text or its
  generic string form, and the contributions are concatenated with a newline between
  neighbours.
\<close>

fun fragment_text :: "fragment \<Rightarrow> string" where
  "fragment_text (TextItem t) = t"
| "fragment_text (OtherItem s) = s"

definition newline_joined :: "string list \<Rightarrow> string" where
  "newline_joined parts =
     (case parts of [] \<Rightarrow> [] | p # ps \<Rightarrow> p @ concat (map (\<lambda>q. CHR 0x0A # q) ps))"

section \<open>An example world\<close>

text \<open>
  Servers told apart by name. \<^verbatim>\<open>missing\<close> cannot be spawned; \<^verbatim>\<open>refused\<close> and \<^verbatim>\<open>stuck\<close>
  reject the handshake, and \<^verbatim>\<open>stuck\<close> also fails to shut down; the task is cancelled
  during the handshake of \<^verbatim>\<open>cancelled\<close>; \<^verbatim>\<open>boom\<close>, \<^verbatim>\<open>scoped\<close>, \<^verbatim>\<open>flaky\<close> and
  \<^verbatim>\<open>interrupted\<close> connect and raise on release; every other server works. Each working
  server lists one tool.
\<close>

definition search_tool :: tool_descriptor where
  "search_tool = \<lparr>d_name = ''search'', d_description = Some ''Search the web'',
     d_inputSchema = None\<rparr>"

definition example_behaviour :: "string \<Rightarrow> behaviour" where
  "example_behaviour nm =
     \<lparr>b_stdio_client =
        (if nm = ''missing'' then Raises (OtherException ''No such file or directory'')
         else Returns ()),
      b_client_session = Returns (),
      b_initialize =
        (if nm = ''refused'' \<or> nm = ''stuck'' then Raises (OtherException ''handshake rejected'')
         else if nm = ''cancelled'' then Raises (CancelledError [])
         else Returns ()),
      b_list_tools = Returns [search_tool],
      b_aclose = (\<lambda>rs.
        if nm = ''stuck'' then Raises (OtherException ''process lookup failed'')
        else if nm = ''boom'' then Raises (RuntimeError ''boom'')
        else if nm = ''scoped'' then Raises (RuntimeError ''exit cancel scope in a different task'')
        else if nm = ''flaky'' then Raises (OtherException ''broken pipe'')
        else if nm = ''interrupted'' then Raises (OtherBaseException ''KeyboardInterrupt'')
        else Returns ())\<rparr>"

text \<open>
  Tools told apart by name: \<^verbatim>\<open>search\<close> answers with a text and an image, \<^verbatim>\<open>flagged\<close>
  answers with the error flag set, the task is cancelled during \<^verbatim>\<open>slow\<close>, and the channel
  of every other tool is closed.
\<close>

definition example_call :: "session_ref \<Rightarrow> string \<Rightarrow> (string \<times> json) list \<Rightarrow> call_result outcome" where
  "example_call s tool_name kwargs =
     (if tool_name = ''search'' then
        Returns \<lparr>r_content = [TextItem ''first hit'', OtherItem ''type=image'', TextItem ''last hit''],
                 r_isError = Some False\<rparr>
      else if tool_name = ''flagged'' then
        Returns \<lparr>r_content = [TextItem ''quota exceeded''], r_isError = Some True\<rparr>
      else if tool_name = ''slow'' then Raises (CancelledError [])
      else Raises (OtherException ''channel closed''))"

definition example_world :: world where
  "example_world =
     \<lparr>environ = [''API_KEY'' \<mapsto> ''sk-123''],
      server = (\<lambda>nm params. example_behaviour nm),
      call_tool = example_call\<rparr>"

definition example_tool :: "string \<Rightarrow> mcp_tool" where
  "example_tool nm = \<lparr>t_name = nm, t_description = [], t_parameters = JObj [],
     t_session = Session ''good''\<rparr>"

definition example_entry :: "string \<Rightarrow> string \<times> server_config" where
  "example_entry nm =
     (nm, \<lparr>cfg_disabled = False, cfg_command = Some ''npx'', cfg_args = [''-y'', nm],
           cfg_env = []\<rparr>)"

text \<open>A connection to the named server in the state a successful \<^verbatim>\<open>connect\<close> leaves.\<close>

definition ready_connection :: "string \<Rightarrow> connection" where
  "ready_connection nm =
     \<lparr>name = nm, command = ''npx'', args = [''-y'', nm], env = [],
      session = Some (Session nm), exit_stack = Some [ClientSession, StdioClient],
      tools = [wrap_tool (Session nm) search_tool]\<rparr>"

section \<open>Resolution of environment entries\<close>

text \<open>
  The loop writes each key once when the keys are distinct, as those of a dict are: the
  resolved mapping holds, for each configured key, its resolved value.
\<close>

lemma resolve_env_lookup:
  "distinct (map fst items) \<Longrightarrow>
   map_of (resolve_env amb items acc) k =
     (case map_of items k of
        Some v \<Rightarrow> Some (resolve_value amb k v)
      | None \<Rightarrow> map_of acc k)"
proof (induction items arbitrary: acc)
  case Nil
  then show ?case by simp
next
  case (Cons item items)
  obtain key val where item: "item = (key, val)" by (cases item)
  from Cons.prems item have fresh: "map_of items key = None" and d: "distinct (map fst items)"
    by (auto simp: map_of_eq_None_iff)
  show ?case
    using Cons.IH [OF d, of "AList.update key (resolve_value amb key val) acc"] fresh
    by (auto simp: item update_conv' split: option.splits)
qed

text \<open>
  C4, as amended. For every configured key whose value is empty or begins with
  \<^verbatim>\<open>YOUR_\<close> or \<^verbatim>\<open>your-\<close>: the resolved mapping holds the ambient value when the ambient
  environment defines the key with a non-empty value, and the configured value when the
  key is undefined or defined as the empty string. A value that differs from the
  configured one is never empty. Resolution is a total function: it has no path that
  raises.
\<close>

theorem resolve_env_placeholder_entry:
  assumes "distinct (map fst env_items)" and "(key, val) \<in> set env_items"
    and "val = [] \<or> startswith val ''YOUR_'' \<or> startswith val ''your-''"
  shows "map_of (resolve_env amb env_items []) key =
           Some (case amb key of None \<Rightarrow> val | Some a \<Rightarrow> if a \<noteq> [] then a else val)
         \<and> (\<forall>a. amb key = Some a \<and> a \<noteq> [] \<longrightarrow>
               map_of (resolve_env amb env_items []) key = Some a)
         \<and> (amb key = None \<or> amb key = Some [] \<longrightarrow>
               map_of (resolve_env amb env_items []) key = Some val)
         \<and> (\<forall>r. map_of (resolve_env amb env_items []) key = Some r \<and> r \<noteq> val \<longrightarrow> r \<noteq> [])"
proof -
  from assms(1,2) have "map_of env_items key = Some val" by simp
  with assms(1) have "map_of (resolve_env amb env_items []) key = Some (resolve_value amb key val)"
    by (simp add: resolve_env_lookup)
  with assms(3) show ?thesis
    by (auto simp: resolve_value_def split: option.splits)
qed

theorem resolve_env_placeholder_entry_witness:
  "map_of (resolve_env [''API_KEY'' \<mapsto> ''sk-123'']
       [(''API_KEY'', ''YOUR_API_KEY''), (''REGION'', ''''), (''MODE'', ''fast'')] []) ''API_KEY''
     = Some ''sk-123''
   \<and> map_of (resolve_env [''API_KEY'' \<mapsto> ''sk-123'']
       [(''API_KEY'', ''YOUR_API_KEY''), (''REGION'', ''''), (''MODE'', ''fast'')] []) ''REGION''
     = Some ''''"
proof -
  let ?items = "[(''API_KEY'', ''YOUR_API_KEY''), (''REGION'', ''''), (''MODE'', ''fast'')]"
  have d: "distinct (map fst ?items)" by simp
  have m1: "(''API_KEY'', ''YOUR_API_KEY'') \<in> set ?items" by simp
  have p1: "''YOUR_API_KEY'' = [] \<or> startswith ''YOUR_API_KEY'' ''YOUR_''
            \<or> startswith ''YOUR_API_KEY'' ''your-''"
    by (simp add: startswith_def)
  have m2: "(''REGION'', '''') \<in> set ?items" by simp
  have p2: "'''' = [] \<or> startswith '''' ''YOUR_'' \<or> startswith '''' ''your-''" by simp
  show ?thesis
    using resolve_env_placeholder_entry [OF d m1 p1, of "[''API_KEY'' \<mapsto> ''sk-123'']"]
      resolve_env_placeholder_entry [OF d m2 p2, of "[''API_KEY'' \<mapsto> ''sk-123'']"]
    by simp
qed

text \<open>
  C4 as stated fails where the ambient environment defines the key as the empty string:
  \<^verbatim>\<open>if env_value\<close> is false there, and the placeholder is kept.
\<close>

theorem resolve_env_blank_ambient_counterexample:
  "[''API_KEY'' \<mapsto> ''''] ''API_KEY'' = Some ''''
   \<and> map_of (resolve_env [''API_KEY'' \<mapsto> ''''] [(''API_KEY'', ''YOUR_API_KEY'')] []) ''API_KEY''
       = Some ''YOUR_API_KEY''
   \<and> map_of (resolve_env [''API_KEY'' \<mapsto> ''''] [(''API_KEY'', ''YOUR_API_KEY'')] []) ''API_KEY''
       \<noteq> Some ''''"
  by (simp add: resolve_value_def startswith_def)

text \<open>
  C5. For every configured key whose value is non-empty and begins with neither
  \<^verbatim>\<open>YOUR_\<close> nor \<^verbatim>\<open>your-\<close>, the resolved mapping holds the configured value, and it holds
  the same value under any two ambient environments.
\<close>

theorem resolve_env_literal_entry:
  assumes "distinct (map fst env_items)" and "(key, val) \<in> set env_items"
    and "val \<noteq> []" and "\<not> startswith val ''YOUR_''" and "\<not> startswith val ''your-''"
  shows "map_of (resolve_env amb env_items []) key = Some val
         \<and> map_of (resolve_env amb' env_items []) key = map_of (resolve_env amb env_items []) key"
proof -
  from assms(1,2) have "map_of env_items key = Some val" by simp
  with assms(1) have "map_of (resolve_env a env_items []) key = Some (resolve_value a key val)" for a
    by (simp add: resolve_env_lookup)
  with assms(3-5) show ?thesis
    by (simp add: resolve_value_def)
qed

theorem resolve_env_literal_entry_witness:
  "map_of (resolve_env [''MODE'' \<mapsto> ''slow'']
       [(''API_KEY'', ''YOUR_API_KEY''), (''MODE'', ''fast'')] []) ''MODE'' = Some ''fast''
   \<and> map_of (resolve_env Map.empty
       [(''API_KEY'', ''YOUR_API_KEY''), (''MODE'', ''fast'')] []) ''MODE''
     = map_of (resolve_env [''MODE'' \<mapsto> ''slow'']
       [(''API_KEY'', ''YOUR_API_KEY''), (''MODE'', ''fast'')] []) ''MODE''"
proof -
  let ?items = "[(''API_KEY'', ''YOUR_API_KEY''), (''MODE'', ''fast'')]"
  have d: "distinct (map fst ?items)" by simp
  have m: "(''MODE'', ''fast'') \<in> set ?items" by simp
  have n: "''fast'' \<noteq> []" by simp
  have p: "\<not> startswith ''fast'' ''YOUR_''" by (simp add: startswith_def)
  have q: "\<not> startswith ''fast'' ''your-''" by (simp add: startswith_def)
  show ?thesis
    using resolve_env_literal_entry [OF d m n p q, of "[''MODE'' \<mapsto> ''slow'']" Map.empty]
    by simp
qed

section \<open>\<^verbatim>\<open>MCPTool.execute\<close>: the result of a call\<close>

lemmas example_defs =
  example_world_def example_behaviour_def example_call_def example_tool_def example_entry_def
  ready_connection_def search_tool_def

lemma content_parts_map: "content_parts items = map fragment_text items"
  by (induction items rule: content_parts.induct) simp_all

lemma py_join_newline_joined: "py_join [CHR 0x0A] parts = newline_joined parts"
proof (induction "[CHR 0x0A]" parts rule: py_join.induct)
  case 1
  show ?case by (simp add: newline_joined_def)
next
  case (2 p)
  show ?case by (simp add: newline_joined_def)
next
  case (3 p q ps)
  then show ?case by (simp add: newline_joined_def)
qed

text \<open>
  C9. Whenever \<^verbatim>\<open>call_tool\<close> returns a response, \<^verbatim>\<open>execute\<close> returns a result whose content
  is the response's fragments joined by newline, a fragment with a text attribute
  contributing that text and any other fragment its string form. Nothing is assumed about
  the response's error flag.
\<close>

theorem execute_content:
  assumes "call_tool w (t_session tool) (t_name tool) kwargs = Returns result"
  shows "\<exists>res. execute w tool kwargs = Returns res
           \<and> content res = py_join [CHR 0x0A] (content_parts (r_content result))
           \<and> content res = newline_joined (map fragment_text (r_content result))"
  using assms
  by (simp add: execute_def Let_def content_parts_map py_join_newline_joined)

theorem execute_content_witness:
  "(\<exists>res. execute example_world (example_tool ''search'') [] = Returns res
      \<and> content res = ''first hit'' @ [CHR 0x0A] @ ''type=image'' @ [CHR 0x0A] @ ''last hit'')
   \<and> (\<exists>res. execute example_world (example_tool ''flagged'') [] = Returns res
      \<and> content res = ''quota exceeded'')"
proof -
  have a: "call_tool example_world (t_session (example_tool ''search''))
             (t_name (example_tool ''search'')) [] =
           Returns \<lparr>r_content = [TextItem ''first hit'', OtherItem ''type=image'', TextItem ''last hit''],
                    r_isError = Some False\<rparr>"
    by (simp add: example_defs)
  have b: "call_tool example_world (t_session (example_tool ''flagged''))
             (t_name (example_tool ''flagged'')) [] =
           Returns \<lparr>r_content = [TextItem ''quota exceeded''], r_isError = Some True\<rparr>"
    by (simp add: example_defs)
  show ?thesis
    using execute_content [OF a] execute_content [OF b]
    by (simp add: newline_joined_def)
qed

text \<open>
  C6, as amended. A response that carries the error flag gives a result with
  \<open>success = False\<close> and the fixed error message \<^verbatim>\<open>Tool returned error\<close>. An error of
  class \<^verbatim>\<open>Exception\<close> raised by the call gives a result with \<open>success = False\<close>, empty
  content and the error message \<^verbatim>\<open>MCP tool execution failed: \<close> followed by the
  exception's message. An error outside \<^verbatim>\<open>Exception\<close> leaves \<^verbatim>\<open>execute\<close>.
\<close>

theorem execute_failure_results:
  "(\<forall>result. call_tool w (t_session tool) (t_name tool) kwargs = Returns result
       \<and> r_isError result = Some True \<longrightarrow>
      (\<exists>res. execute w tool kwargs = Returns res \<and> success res = False
         \<and> error res = Some ''Tool returned error''))
   \<and> (\<forall>e. call_tool w (t_session tool) (t_name tool) kwargs = Raises e \<and> is_Exception e \<longrightarrow>
      execute w tool kwargs =
        Returns \<lparr>success = False, content = [],
                 error = Some (''MCP tool execution failed: '' @ str_exc e)\<rparr>)
   \<and> (\<forall>e. call_tool w (t_session tool) (t_name tool) kwargs = Raises e \<and> \<not> is_Exception e \<longrightarrow>
      execute w tool kwargs = Raises e)"
  by (simp add: execute_def Let_def)

theorem execute_failure_results_witness:
  "(\<exists>res. execute example_world (example_tool ''flagged'') [] = Returns res \<and> success res = False
         \<and> error res = Some ''Tool returned error'')
   \<and> execute example_world (example_tool ''closed'') [] =
        Returns \<lparr>success = False, content = [],
                 error = Some ''MCP tool execution failed: channel closed''\<rparr>"
proof -
  have a: "call_tool example_world (t_session (example_tool ''flagged''))
             (t_name (example_tool ''flagged'')) [] =
           Returns \<lparr>r_content = [TextItem ''quota exceeded''], r_isError = Some True\<rparr>"
    by (simp add: example_defs)
  have b: "call_tool example_world (t_session (example_tool ''closed''))
             (t_name (example_tool ''closed'')) [] = Raises (OtherException ''channel closed'')"
    by (simp add: example_defs)
  have c: "is_Exception (OtherException ''channel closed'')" by simp
  from execute_failure_results [of example_world "example_tool ''flagged''" "[]"] a
  have 1: "\<exists>res. execute example_world (example_tool ''flagged'') [] = Returns res
        \<and> success res = False \<and> error res = Some ''Tool returned error''"
    by simp
  from execute_failure_results [of example_world "example_tool ''closed''" "[]"] b c
  have 2: "execute example_world (example_tool ''closed'') [] =
        Returns \<lparr>success = False, content = [],
                 error = Some ''MCP tool execution failed: channel closed''\<rparr>"
    by simp
  from 1 2 show ?thesis by blast
qed

text \<open>
  C6 as stated fails: for a call that raises \<^verbatim>\<open>Exception("channel closed")\<close> the error
  message of the result is not the exception's message but that message behind a fixed
  prefix, and a cancellation raised during the call is not caught.
\<close>

theorem execute_message_counterexample:
  "call_tool example_world (t_session (example_tool ''closed'')) (t_name (example_tool ''closed'')) []
     = Raises (OtherException ''channel closed'')
   \<and> str_exc (OtherException ''channel closed'') = ''channel closed''
   \<and> execute example_world (example_tool ''closed'') [] =
        Returns \<lparr>success = False, content = [],
                 error = Some ''MCP tool execution failed: channel closed''\<rparr>
   \<and> execute example_world (example_tool ''closed'') [] \<noteq>
        Returns \<lparr>success = False, content = [], error = Some ''channel closed''\<rparr>
   \<and> execute example_world (example_tool ''slow'') [] = Raises (CancelledError [])"
  by (simp add: execute_def example_defs)

section \<open>\<^verbatim>\<open>MCPServerConnection.connect\<close>: the environment of the child\<close>

lemma tool_line_no_launch: "EnterStdioClient n p \<noteq> tool_line t"
  by (simp add: tool_line_def)

lemma connect_try_events:
  "\<exists>evs. snd (snd (connect_try w c)) = EnterStdioClient (name c) (server_params_of c) # evs
     \<and> (\<forall>n p. EnterStdioClient n p \<notin> set evs)"
  by (auto simp: connect_try_def Let_def tool_line_no_launch split: outcome.splits)

lemma connect_events:
  "\<exists>evs. snd (snd (connect w c)) = EnterStdioClient (name c) (server_params_of c) # evs
     \<and> (\<forall>n p. EnterStdioClient n p \<notin> set evs)"
proof -
  obtain r c' ev where t: "connect_try w c = (r, c', ev)" by (cases "connect_try w c")
  with connect_try_events [of w c] obtain evs
    where ev: "ev = EnterStdioClient (name c) (server_params_of c) # evs"
      and no: "\<forall>n p. EnterStdioClient n p \<notin> set evs" by auto
  show ?thesis
    using no by (simp add: connect_def t ev Let_def split: outcome.splits option.splits)
qed

text \<open>
  C10. \<^verbatim>\<open>connect\<close> begins by entering \<^verbatim>\<open>stdio_client\<close> with the connection's command and
  arguments, and with \<^verbatim>\<open>None\<close> as the environment when the connection's mapping is empty
  and the mapping itself otherwise; it launches nothing else. The constructor stores an
  absent mapping as the empty one.
\<close>

theorem connect_passes_env:
  "\<exists>evs. snd (snd (connect w c)) =
       EnterStdioClient (name c)
         \<lparr>sp_command = command c, sp_args = args c,
          sp_env = (if env c = [] then None else Some (env c))\<rparr> # evs
     \<and> (\<forall>n p. EnterStdioClient n p \<notin> set evs)
     \<and> env (MCPServerConnection nm cmd as None) = []
     \<and> env (MCPServerConnection nm cmd as (Some e)) = e"
  using connect_events [of w c]
  by (cases "env c = []") (simp_all add: server_params_of_def MCPServerConnection_def)

theorem connect_passes_env_witness:
  "\<exists>evs. snd (snd (connect example_world (MCPServerConnection ''good'' ''npx'' [''-y''] (Some [])))) =
       EnterStdioClient ''good'' \<lparr>sp_command = ''npx'', sp_args = [''-y''], sp_env = None\<rparr> # evs"
  using connect_passes_env [of example_world "MCPServerConnection ''good'' ''npx'' [''-y''] (Some [])"]
  by (simp add: MCPServerConnection_def) blast

section \<open>\<^verbatim>\<open>MCPServerConnection.disconnect\<close>\<close>

text \<open>
  C2, as amended. When the exit stack is absent \<^verbatim>\<open>disconnect\<close> is a no-op; after any call
  the exit stack is absent, so a second call is a no-op. An error raised by the release is
  suppressed when it is a \<^verbatim>\<open>CancelledError\<close>, a \<^verbatim>\<open>RuntimeError\<close> whose message contains
  \<^verbatim>\<open>cancel scope\<close> or \<^verbatim>\<open>different task\<close>, or an \<^verbatim>\<open>Exception\<close> that is not a
  \<^verbatim>\<open>RuntimeError\<close>. A \<^verbatim>\<open>RuntimeError\<close> whose message contains neither is raised again to
  the caller, and an error outside \<^verbatim>\<open>Exception\<close> other than \<^verbatim>\<open>CancelledError\<close> passes
  through. \<^verbatim>\<open>disconnect\<close> prints nothing.
\<close>

theorem disconnect_suppression:
  "(exit_stack c = None \<longrightarrow> disconnect w c = (Returns (), c, []))
   \<and> exit_stack (fst (snd (disconnect w c))) = None
   \<and> disconnect w (fst (snd (disconnect w c))) = (Returns (), fst (snd (disconnect w c)), [])
   \<and> (\<forall>m. Print m \<notin> set (snd (snd (disconnect w c))))
   \<and> (\<forall>rs e. exit_stack c = Some rs \<and> aclose w c rs = Raises e
         \<and> (is_CancelledError e \<or> (\<exists>m. e = OtherException m)
            \<or> (\<exists>m. e = RuntimeError m \<and> (py_in ''cancel scope'' m \<or> py_in ''different task'' m)))
       \<longrightarrow> fst (disconnect w c) = Returns ())
   \<and> (\<forall>rs m. exit_stack c = Some rs \<and> aclose w c rs = Raises (RuntimeError m)
         \<and> \<not> py_in ''cancel scope'' m \<and> \<not> py_in ''different task'' m
       \<longrightarrow> fst (disconnect w c) = Raises (RuntimeError m))
   \<and> (\<forall>rs m. exit_stack c = Some rs \<and> aclose w c rs = Raises (OtherBaseException m)
       \<longrightarrow> fst (disconnect w c) = Raises (OtherBaseException m))"
proof -
  have noop: "exit_stack c = None \<longrightarrow> disconnect w c = (Returns (), c, [])"
    by (simp add: disconnect_def)
  have cleared: "exit_stack (fst (snd (disconnect w c))) = None"
    by (simp add: disconnect_def Let_def split: option.splits outcome.splits exc.splits)
  have again: "disconnect w (fst (snd (disconnect w c))) = (Returns (), fst (snd (disconnect w c)), [])"
    using cleared by (simp add: disconnect_def [of w "fst (snd (disconnect w c))"])
  have quiet: "\<forall>m. Print m \<notin> set (snd (snd (disconnect w c)))"
    by (simp add: disconnect_def Let_def split: option.splits outcome.splits exc.splits)
  have swallowed: "\<forall>rs e. exit_stack c = Some rs \<and> aclose w c rs = Raises e
         \<and> (is_CancelledError e \<or> (\<exists>m. e = OtherException m)
            \<or> (\<exists>m. e = RuntimeError m \<and> (py_in ''cancel scope'' m \<or> py_in ''different task'' m)))
       \<longrightarrow> fst (disconnect w c) = Returns ()"
    by (auto simp: disconnect_def Let_def split: exc.splits)
  have reraised: "\<forall>rs m. exit_stack c = Some rs \<and> aclose w c rs = Raises (RuntimeError m)
         \<and> \<not> py_in ''cancel scope'' m \<and> \<not> py_in ''different task'' m
       \<longrightarrow> fst (disconnect w c) = Raises (RuntimeError m)"
    by (simp add: disconnect_def Let_def)
  have passed: "\<forall>rs m. exit_stack c = Some rs \<and> aclose w c rs = Raises (OtherBaseException m)
       \<longrightarrow> fst (disconnect w c) = Raises (OtherBaseException m)"
    by (simp add: disconnect_def Let_def)
  from noop cleared again quiet swallowed reraised passed show ?thesis by blast
qed

theorem disconnect_suppression_witness:
  "fst (disconnect example_world (ready_connection ''scoped'')) = Returns ()
   \<and> fst (disconnect example_world (ready_connection ''flaky'')) = Returns ()
   \<and> disconnect example_world (fst (snd (disconnect example_world (ready_connection ''scoped''))))
       = (Returns (), fst (snd (disconnect example_world (ready_connection ''scoped''))), [])"
proof -
  have s: "exit_stack (ready_connection ''scoped'') = Some [ClientSession, StdioClient]"
    by (simp add: ready_connection_def)
  have a: "aclose example_world (ready_connection ''scoped'') [ClientSession, StdioClient]
           = Raises (RuntimeError ''exit cancel scope in a different task'')"
    by (simp add: aclose_def example_defs)
  have p: "py_in ''cancel scope'' ''exit cancel scope in a different task''"
    by simp
  have s': "exit_stack (ready_connection ''flaky'') = Some [ClientSession, StdioClient]"
    by (simp add: ready_connection_def)
  have a': "aclose example_world (ready_connection ''flaky'') [ClientSession, StdioClient]
           = Raises (OtherException ''broken pipe'')"
    by (simp add: aclose_def example_defs)
  from disconnect_suppression [of "ready_connection ''scoped''" example_world] s a p
  have 1: "fst (disconnect example_world (ready_connection ''scoped'')) = Returns ()"
    by blast
  from disconnect_suppression [of "ready_connection ''flaky''" example_world] s' a'
  have 2: "fst (disconnect example_world (ready_connection ''flaky'')) = Returns ()"
    by blast
  from disconnect_suppression [of "ready_connection ''scoped''" example_world]
  have 3: "disconnect example_world (fst (snd (disconnect example_world (ready_connection ''scoped''))))
       = (Returns (), fst (snd (disconnect example_world (ready_connection ''scoped''))), [])"
    by blast
  from 1 2 3 show ?thesis by blast
qed

text \<open>
  C2 as stated fails: a release that raises \<^verbatim>\<open>RuntimeError("boom")\<close> makes
  \<^verbatim>\<open>disconnect\<close> raise it (line 180), a suppressed error leaves no printed line, and a
  \<^verbatim>\<open>KeyboardInterrupt\<close> raised by the release matches none of the handlers.
\<close>

theorem disconnect_reraises_counterexample:
  "exit_stack (ready_connection ''boom'') = Some [ClientSession, StdioClient]
   \<and> aclose example_world (ready_connection ''boom'') [ClientSession, StdioClient]
       = Raises (RuntimeError ''boom'')
   \<and> fst (disconnect example_world (ready_connection ''boom'')) = Raises (RuntimeError ''boom'')
   \<and> aclose example_world (ready_connection ''flaky'') [ClientSession, StdioClient]
       = Raises (OtherException ''broken pipe'')
   \<and> snd (snd (disconnect example_world (ready_connection ''flaky'')))
       = [Aclose ''flaky'' [ClientSession, StdioClient]]
   \<and> fst (disconnect example_world (ready_connection ''interrupted''))
       = Raises (OtherBaseException ''KeyboardInterrupt'')"
  by (simp add: disconnect_def aclose_def example_defs Let_def)

section \<open>\<^verbatim>\<open>MCPServerConnection.connect\<close>: failures\<close>

lemma connect_try_exit_stack:
  "\<exists>rs. exit_stack (fst (snd (connect_try w c))) = Some rs"
  by (simp add: connect_try_def Let_def split: outcome.splits)

lemma connect_try_name: "name (fst (snd (connect_try w c))) = name c"
  by (simp add: connect_try_def Let_def split: outcome.splits)

text \<open>
  What the handler achieves when the release returns: for a failure of class
  \<^verbatim>\<open>Exception\<close> at any step, \<^verbatim>\<open>connect\<close> returns \<^verbatim>\<open>False\<close>, having called \<^verbatim>\<open>aclose\<close> on
  the stack that holds what was acquired, and the exit stack is cleared.
\<close>

lemma connect_failure_released:
  assumes "connect_try w c = (Raises e, c', ev)" and "is_Exception e"
    and "exit_stack c' = Some rs" and "aclose w c' rs = Returns ()"
  shows "connect w c =
           (Returns False, c'\<lparr>exit_stack := None\<rparr>,
            ev @ [Print (MsgConnectFailed (name c) e), Aclose (name c) rs, Print MsgTraceback])"
  using assms connect_try_name [of w c]
  by (simp add: connect_def Let_def)

text \<open>
  C3, at the input where the code fails it. The server \<^verbatim>\<open>stuck\<close> is spawned, its session
  is opened, and \<^verbatim>\<open>initialize\<close> raises \<^verbatim>\<open>Exception("handshake rejected")\<close>; the call of
  \<^verbatim>\<open>aclose\<close> in the handler then raises as well. \<^verbatim>\<open>connect\<close> does not return \<^verbatim>\<open>False\<close>: it
  raises the second error and leaves the exit stack field set (to the stack the call emptied). \<^verbatim>\<open>load_mcp_tools_async\<close> catches
  that error in its outer handler and returns the empty list, dropping the tool of the
  server \<^verbatim>\<open>good\<close> that had connected before. \<^verbatim>\<open>disconnect\<close>, which guards the same call,
  returns for the same server.
\<close>

theorem connect_release_failure_raises:
  "connect_try example_world (MCPServerConnection ''stuck'' ''npx'' [''-y'', ''stuck''] (Some []))
     = (Raises (OtherException ''handshake rejected''),
        \<lparr>name = ''stuck'', command = ''npx'', args = [''-y'', ''stuck''], env = [],
         session = Some (Session ''stuck''), exit_stack = Some [ClientSession, StdioClient],
         tools = []\<rparr>,
        [EnterStdioClient ''stuck'' \<lparr>sp_command = ''npx'', sp_args = [''-y'', ''stuck''], sp_env = None\<rparr>,
         EnterClientSession ''stuck'', Initialize ''stuck''])
   \<and> fst (connect example_world (MCPServerConnection ''stuck'' ''npx'' [''-y'', ''stuck''] (Some [])))
       = Raises (OtherException ''process lookup failed'')
   \<and> exit_stack (fst (snd (connect example_world
         (MCPServerConnection ''stuck'' ''npx'' [''-y'', ''stuck''] (Some []))))) = Some []
   \<and> fst (load_mcp_tools_async example_world ''mcp.json''
         (Config [example_entry ''good'', example_entry ''stuck'']) []) = Returns []
   \<and> fst (disconnect example_world (ready_connection ''stuck'')) = Returns ()"
  by (simp add: load_mcp_tools_async_def connect_def connect_try_def disconnect_def aclose_def
        MCPServerConnection_def server_params_of_def wrap_tool_def tool_line_def example_defs Let_def)

section \<open>\<^verbatim>\<open>cleanup_mcp_connections\<close>\<close>

text \<open>
  A \<^verbatim>\<open>disconnect\<close> whose release raises nothing that passes the guard of line 289 lets
  the loop go on to the next connection.
\<close>

lemma disconnect_each_step:
  assumes "\<forall>rs m. exit_stack c = Some rs \<longrightarrow> aclose w c rs \<noteq> Raises (OtherBaseException m)"
  shows "disconnect_each w (c # cs) =
           (case disconnect_each w cs of
              (r, cs', ev') \<Rightarrow>
                (r, fst (snd (disconnect w c)) # cs', snd (snd (disconnect w c)) @ ev'))"
proof -
  obtain r c' ev where d: "disconnect w c = (r, c', ev)" by (cases "disconnect w c")
  have guarded: "is_CancelledError e \<or> is_Exception e" if "r = Raises e" for e
  proof (cases "exit_stack c")
    case None
    with d that show ?thesis by (simp add: disconnect_def)
  next
    case (Some rs)
    with assms have "\<forall>m. aclose w c rs \<noteq> Raises (OtherBaseException m)" by simp
    with d that Some show ?thesis
      by (auto simp: disconnect_def Let_def split: outcome.splits exc.splits if_splits)
  qed
  show ?thesis
  proof (cases r)
    case (Returns u)
    with d show ?thesis by (simp add: case_prod_unfold)
  next
    case (Raises e)
    with guarded have "is_CancelledError e \<or> is_Exception e" by simp
    with d Raises show ?thesis by (simp add: case_prod_unfold)
  qed
qed

text \<open>
  When no release raises an error that passes the guard, the loop calls \<^verbatim>\<open>disconnect\<close> on
  every connection, in order, and returns.
\<close>

lemma disconnect_each_guarded:
  assumes "\<forall>c\<in>set conns. \<forall>rs m. exit_stack c = Some rs \<longrightarrow>
             aclose w c rs \<noteq> Raises (OtherBaseException m)"
  shows "disconnect_each w conns =
           (Returns (), map (\<lambda>c. fst (snd (disconnect w c))) conns,
            concat (map (\<lambda>c. snd (snd (disconnect w c))) conns))"
  using assms
proof (induction conns)
  case Nil
  show ?case by simp
next
  case (Cons c cs)
  then have "\<forall>rs m. exit_stack c = Some rs \<longrightarrow> aclose w c rs \<noteq> Raises (OtherBaseException m)"
    by simp
  from disconnect_each_step [OF this, of cs] Cons show ?case by simp
qed

text \<open>
  The first release that raises such an error ends the loop: the connections after it are
  not touched.
\<close>

lemma disconnect_each_interrupted:
  assumes "\<forall>c'\<in>set pre. \<forall>rs m. exit_stack c' = Some rs \<longrightarrow>
             aclose w c' rs \<noteq> Raises (OtherBaseException m)"
    and "exit_stack c = Some rs" and "aclose w c rs = Raises (OtherBaseException m)"
  shows "disconnect_each w (pre @ c # rest) =
           (Raises (OtherBaseException m),
            map (\<lambda>c. fst (snd (disconnect w c))) (pre @ [c]) @ rest,
            concat (map (\<lambda>c. snd (snd (disconnect w c))) (pre @ [c])))"
  using assms(1)
proof (induction pre)
  case Nil
  from assms(2,3) have "disconnect w c =
      (Raises (OtherBaseException m), c\<lparr>exit_stack := None, session := None\<rparr>, [Aclose (name c) rs])"
    by (simp add: disconnect_def Let_def)
  then show ?case by simp
next
  case (Cons p pre)
  then have "\<forall>rs m. exit_stack p = Some rs \<longrightarrow> aclose w p rs \<noteq> Raises (OtherBaseException m)"
    by simp
  from disconnect_each_step [OF this, of "pre @ c # rest"] Cons show ?case by simp
qed

lemma disconnect_events:
  "snd (snd (disconnect w c)) = (case exit_stack c of None \<Rightarrow> [] | Some rs \<Rightarrow> [Aclose (name c) rs])"
  by (simp add: disconnect_def Let_def split: option.splits outcome.splits exc.splits)

text \<open>
  C7, as amended. \<^verbatim>\<open>cleanup_mcp_connections\<close> calls \<^verbatim>\<open>disconnect\<close> on the connections of
  the list in order, each call under a guard for \<^verbatim>\<open>CancelledError\<close> and \<^verbatim>\<open>Exception\<close>.
  When no release raises an error outside these classes, it returns, what it did is what
  \<^verbatim>\<open>disconnect\<close> does on each connection in turn (so every connection that holds an exit
  stack has it closed, whatever the \<^verbatim>\<open>disconnect\<close> of an earlier connection raised), the
  list is left empty, and a second call on the list it left returns and does nothing. The
  first release that raises an error outside these classes ends the call: the error
  leaves \<^verbatim>\<open>cleanup_mcp_connections\<close>, the connections after that one are not disconnected
  and the list is not cleared.
\<close>

theorem cleanup_disconnects_all:
  "((\<forall>c\<in>set conns. \<forall>rs m. exit_stack c = Some rs \<longrightarrow>
        aclose w c rs \<noteq> Raises (OtherBaseException m)) \<longrightarrow>
      cleanup_mcp_connections w conns =
        (Returns (), [], concat (map (\<lambda>c. snd (snd (disconnect w c))) conns))
      \<and> (\<forall>c\<in>set conns. \<forall>rs. exit_stack c = Some rs \<longrightarrow>
           Aclose (name c) rs \<in> set (snd (snd (cleanup_mcp_connections w conns))))
      \<and> cleanup_mcp_connections w (fst (snd (cleanup_mcp_connections w conns)))
          = (Returns (), [], []))
   \<and> (\<forall>pre c rest rs m.
        conns = pre @ c # rest
        \<and> (\<forall>c'\<in>set pre. \<forall>rs m. exit_stack c' = Some rs \<longrightarrow>
              aclose w c' rs \<noteq> Raises (OtherBaseException m))
        \<and> exit_stack c = Some rs \<and> aclose w c rs = Raises (OtherBaseException m) \<longrightarrow>
        cleanup_mcp_connections w conns =
          (Raises (OtherBaseException m),
           map (\<lambda>c. fst (snd (disconnect w c))) (pre @ [c]) @ rest,
           concat (map (\<lambda>c. snd (snd (disconnect w c))) (pre @ [c]))))"
proof (intro conjI impI allI)
  assume g: "\<forall>c\<in>set conns. \<forall>rs m. exit_stack c = Some rs \<longrightarrow>
        aclose w c rs \<noteq> Raises (OtherBaseException m)"
  show 1: "cleanup_mcp_connections w conns =
           (Returns (), [], concat (map (\<lambda>c. snd (snd (disconnect w c))) conns))"
    using disconnect_each_guarded [OF g] by (simp add: cleanup_mcp_connections_def)
  show "\<forall>c\<in>set conns. \<forall>rs. exit_stack c = Some rs \<longrightarrow>
              Aclose (name c) rs \<in> set (snd (snd (cleanup_mcp_connections w conns)))"
  proof (intro ballI allI impI)
    fix c rs
    assume c: "c \<in> set conns" and rs: "exit_stack c = Some rs"
    from rs have "Aclose (name c) rs \<in> set (snd (snd (disconnect w c)))"
      by (simp add: disconnect_events)
    with c show "Aclose (name c) rs \<in> set (snd (snd (cleanup_mcp_connections w conns)))"
      by (auto simp: 1)
  qed
  show "cleanup_mcp_connections w (fst (snd (cleanup_mcp_connections w conns)))
          = (Returns (), [], [])"
    by (simp add: 1) (simp add: cleanup_mcp_connections_def)
next
  fix pre c rest rs m
  assume a: "conns = pre @ c # rest
        \<and> (\<forall>c'\<in>set pre. \<forall>rs m. exit_stack c' = Some rs \<longrightarrow>
              aclose w c' rs \<noteq> Raises (OtherBaseException m))
        \<and> exit_stack c = Some rs \<and> aclose w c rs = Raises (OtherBaseException m)"
  then have "disconnect_each w conns =
           (Raises (OtherBaseException m),
            map (\<lambda>c. fst (snd (disconnect w c))) (pre @ [c]) @ rest,
            concat (map (\<lambda>c. snd (snd (disconnect w c))) (pre @ [c])))"
    using disconnect_each_interrupted [of pre w c rs m rest] by blast
  then show "cleanup_mcp_connections w conns =
          (Raises (OtherBaseException m),
           map (\<lambda>c. fst (snd (disconnect w c))) (pre @ [c]) @ rest,
           concat (map (\<lambda>c. snd (snd (disconnect w c))) (pre @ [c])))"
    by (simp add: cleanup_mcp_connections_def)
qed

theorem cleanup_disconnects_all_witness:
  "cleanup_mcp_connections example_world [ready_connection ''boom'', ready_connection ''good'']
     = (Returns (), [], [Aclose ''boom'' [ClientSession, StdioClient],
                         Aclose ''good'' [ClientSession, StdioClient]])
   \<and> fst (disconnect example_world (ready_connection ''boom'')) = Raises (RuntimeError ''boom'')
   \<and> cleanup_mcp_connections example_world
        (fst (snd (cleanup_mcp_connections example_world
           [ready_connection ''boom'', ready_connection ''good''])))
     = (Returns (), [], [])
   \<and> fst (cleanup_mcp_connections example_world
        [ready_connection ''flaky'', ready_connection ''interrupted'', ready_connection ''good''])
     = Raises (OtherBaseException ''KeyboardInterrupt'')"
proof -
  have h: "\<forall>c\<in>set [ready_connection ''boom'', ready_connection ''good'']. \<forall>rs m.
             exit_stack c = Some rs \<longrightarrow>
             aclose example_world c rs \<noteq> Raises (OtherBaseException m)"
    by (simp add: aclose_def example_defs)
  have b: "fst (disconnect example_world (ready_connection ''boom'')) = Raises (RuntimeError ''boom'')"
    by (simp add: disconnect_def aclose_def example_defs Let_def)
  have e: "concat (map (\<lambda>c. snd (snd (disconnect example_world c)))
             [ready_connection ''boom'', ready_connection ''good''])
           = [Aclose ''boom'' [ClientSession, StdioClient],
              Aclose ''good'' [ClientSession, StdioClient]]"
    by (simp add: disconnect_events ready_connection_def)
  note all = cleanup_disconnects_all [of "[ready_connection ''boom'', ready_connection ''good'']"
      example_world, THEN conjunct1, THEN mp, OF h]
  from all
  have 1: "cleanup_mcp_connections example_world [ready_connection ''boom'', ready_connection ''good'']
     = (Returns (), [], concat (map (\<lambda>c. snd (snd (disconnect example_world c)))
             [ready_connection ''boom'', ready_connection ''good'']))"
    and 2: "cleanup_mcp_connections example_world
        (fst (snd (cleanup_mcp_connections example_world
           [ready_connection ''boom'', ready_connection ''good''])))
     = (Returns (), [], [])"
    by (rule conjunct1, rule conjunct2 [THEN conjunct2])
  have s: "[ready_connection ''flaky'', ready_connection ''interrupted'', ready_connection ''good'']
           = [ready_connection ''flaky''] @ ready_connection ''interrupted'' # [ready_connection ''good'']"
    by simp
  have g: "\<forall>c'\<in>set [ready_connection ''flaky'']. \<forall>rs m. exit_stack c' = Some rs \<longrightarrow>
             aclose example_world c' rs \<noteq> Raises (OtherBaseException m)"
    by (simp add: aclose_def example_defs)
  have x: "exit_stack (ready_connection ''interrupted'') = Some [ClientSession, StdioClient]"
    by (simp add: ready_connection_def)
  have i: "aclose example_world (ready_connection ''interrupted'') [ClientSession, StdioClient]
           = Raises (OtherBaseException ''KeyboardInterrupt'')"
    by (simp add: aclose_def example_defs)
  note abort = cleanup_disconnects_all
      [of "[ready_connection ''flaky'', ready_connection ''interrupted'', ready_connection ''good'']"
        example_world, THEN conjunct2, THEN spec, THEN spec, THEN spec, THEN spec, THEN spec,
        THEN mp]
  have 3: "fst (cleanup_mcp_connections example_world
        [ready_connection ''flaky'', ready_connection ''interrupted'', ready_connection ''good''])
     = Raises (OtherBaseException ''KeyboardInterrupt'')"
    using abort [OF conjI [OF s conjI [OF g conjI [OF x i]]]] by (simp only: fst_conv)
  from 1 2 3 b show ?thesis by (simp only: e)
qed

text \<open>
  C7 as stated fails: an error raised by a release that is neither a \<^verbatim>\<open>CancelledError\<close>
  nor an \<^verbatim>\<open>Exception\<close> passes the guard of line 289, so the next connection is not
  disconnected and line 293 is not reached.
\<close>

theorem cleanup_interrupted_counterexample:
  "cleanup_mcp_connections example_world [ready_connection ''interrupted'', ready_connection ''good'']
     = (Raises (OtherBaseException ''KeyboardInterrupt''),
        [(ready_connection ''interrupted'')\<lparr>exit_stack := None, session := None\<rparr>,
         ready_connection ''good''],
        [Aclose ''interrupted'' [ClientSession, StdioClient]])
   \<and> exit_stack (ready_connection ''good'') = Some [ClientSession, StdioClient]
   \<and> Aclose ''good'' [ClientSession, StdioClient]
       \<notin> set (snd (snd (cleanup_mcp_connections example_world
                 [ready_connection ''interrupted'', ready_connection ''good''])))
   \<and> fst (snd (cleanup_mcp_connections example_world
         [ready_connection ''interrupted'', ready_connection ''good''])) \<noteq> []"
  by (simp add: cleanup_mcp_connections_def disconnect_def aclose_def example_defs Let_def)

section \<open>\<^verbatim>\<open>load_mcp_tools_async\<close>: the loop over the servers\<close>

lemma library_calls_append: "library_calls (xs @ ys) = library_calls xs @ library_calls ys"
  by (induction xs rule: library_calls.induct) simp_all

lemma connect_servers_skip:
  assumes "\<not> cfg_disabled sc" and "cfg_command sc = None \<or> cfg_command sc = Some []"
  shows "connect_servers w ((server_name, sc) # rest) conns all_tools =
           (case connect_servers w rest conns all_tools of
              (r, conns', ev) \<Rightarrow> (r, conns', Print (MsgNoCommand server_name) # ev))"
  using assms by auto

text \<open>One round of the loop for an entry that reaches \<^verbatim>\<open>connect\<close>.\<close>

lemma connect_servers_attempt:
  assumes "\<not> cfg_disabled (snd entry)" and "cfg_command (snd entry) \<noteq> None"
    and "cfg_command (snd entry) \<noteq> Some []"
  shows "connect_servers w (entry # rest) conns all_tools =
     (case attempt w entry of
        (Raises e, c', ev) \<Rightarrow> (Raises e, conns, ev)
      | (Returns ok, c', ev) \<Rightarrow>
          (case (if ok then connect_servers w rest (conns @ [c']) (all_tools @ tools c')
                 else connect_servers w rest conns all_tools) of
             (r, conns', ev') \<Rightarrow> (r, conns', ev @ ev')))"
  using assms by (cases entry) (auto simp: attempt_def Let_def)

text \<open>
  An enabled entry without a command, wherever it stands in the configuration, changes
  neither the outcome of the loop, nor the connections it registers, nor the calls it
  makes into the protocol library.
\<close>

lemma connect_servers_skip_anywhere:
  assumes "\<not> cfg_disabled sc" and "cfg_command sc = None \<or> cfg_command sc = Some []"
  shows "fst (connect_servers w (pre @ (server_name, sc) # rest) conns all_tools)
           = fst (connect_servers w (pre @ rest) conns all_tools)
         \<and> fst (snd (connect_servers w (pre @ (server_name, sc) # rest) conns all_tools))
           = fst (snd (connect_servers w (pre @ rest) conns all_tools))
         \<and> library_calls (snd (snd (connect_servers w (pre @ (server_name, sc) # rest) conns all_tools)))
           = library_calls (snd (snd (connect_servers w (pre @ rest) conns all_tools)))"
proof (induction pre arbitrary: conns all_tools)
  case Nil
  show ?case
    using connect_servers_skip [OF assms, of w server_name rest conns all_tools]
    by (simp add: case_prod_unfold)
next
  case (Cons entry pre)
  obtain n s where entry: "entry = (n, s)" by (cases entry)
  let ?xs = "pre @ (server_name, sc) # rest" and ?ys = "pre @ rest"
  consider (skipped) "cfg_disabled s \<or> cfg_command s = None \<or> cfg_command s = Some []"
    | (tried) "\<not> cfg_disabled s" "cfg_command s \<noteq> None" "cfg_command s \<noteq> Some []"
    by blast
  then show ?case
  proof cases
    case skipped
    then show ?thesis
      using Cons.IH [of conns all_tools]
      by (auto simp: entry case_prod_unfold)
  next
    case tried
    then have u: "connect_servers w (entry # zs) conns all_tools =
       (case attempt w entry of
          (Raises e, c', ev) \<Rightarrow> (Raises e, conns, ev)
        | (Returns ok, c', ev) \<Rightarrow>
            (case (if ok then connect_servers w zs (conns @ [c']) (all_tools @ tools c')
                   else connect_servers w zs conns all_tools) of
               (r, conns', ev') \<Rightarrow> (r, conns', ev @ ev')))" for zs
      by (intro connect_servers_attempt) (simp_all add: entry)
    obtain r c' ev where a: "attempt w entry = (r, c', ev)" by (cases "attempt w entry")
    show ?thesis
    proof (cases r)
      case (Raises e)
      with a show ?thesis by (simp add: u)
    next
      case (Returns ok)
      show ?thesis
      proof (cases ok)
        case True
        with a Returns Cons.IH [of "conns @ [c']" "all_tools @ tools c'"] show ?thesis
          by (simp add: u library_calls_append case_prod_unfold)
      next
        case False
        with a Returns Cons.IH [of conns all_tools] show ?thesis
          by (simp add: u library_calls_append case_prod_unfold)
      qed
    qed
  qed
qed

text \<open>
  C8. For every enabled entry whose command is absent or empty: the round of the loop
  for it prints \<^verbatim>\<open>No command specified for server\<close> and does nothing else, the rest of
  the load goes on as it does without the entry (same outcome, same registered
  connections, same calls into the protocol library, so no process is spawned for it),
  and the entry is not among the attempted ones.
\<close>

theorem missing_command_skipped:
  assumes "\<not> cfg_disabled sc" and "cfg_command sc = None \<or> cfg_command sc = Some []"
  shows "connect_servers w ((server_name, sc) # rest) conns all_tools =
           (case connect_servers w rest conns all_tools of
              (r, conns', ev) \<Rightarrow> (r, conns', Print (MsgNoCommand server_name) # ev))
         \<and> fst (connect_servers w (pre @ (server_name, sc) # rest) conns all_tools)
           = fst (connect_servers w (pre @ rest) conns all_tools)
         \<and> fst (snd (connect_servers w (pre @ (server_name, sc) # rest) conns all_tools))
           = fst (snd (connect_servers w (pre @ rest) conns all_tools))
         \<and> library_calls (snd (snd (connect_servers w (pre @ (server_name, sc) # rest) conns all_tools)))
           = library_calls (snd (snd (connect_servers w (pre @ rest) conns all_tools)))
         \<and> (server_name, sc) \<notin> set (attempted (pre @ (server_name, sc) # rest))"
proof -
  from assms(2) have "(server_name, sc) \<notin> set (attempted xs)" for xs
    by (auto simp: attempted_def)
  with connect_servers_skip [OF assms] connect_servers_skip_anywhere [OF assms]
  show ?thesis by simp
qed


theorem missing_command_skipped_witness:
  "connect_servers example_world
     [(''empty'', \<lparr>cfg_disabled = False, cfg_command = Some [], cfg_args = [], cfg_env = []\<rparr>)] [] []
     = (Returns [], [], [Print (MsgNoCommand ''empty'')])
   \<and> fst (connect_servers example_world
       [example_entry ''good'',
        (''empty'', \<lparr>cfg_disabled = False, cfg_command = Some [], cfg_args = [], cfg_env = []\<rparr>),
        example_entry ''other''] [] [])
     = fst (connect_servers example_world [example_entry ''good'', example_entry ''other''] [] [])
   \<and> library_calls (snd (snd (connect_servers example_world
       [example_entry ''good'',
        (''empty'', \<lparr>cfg_disabled = False, cfg_command = Some [], cfg_args = [], cfg_env = []\<rparr>),
        example_entry ''other''] [] [])))
     = library_calls (snd (snd (connect_servers example_world
         [example_entry ''good'', example_entry ''other''] [] [])))"
proof -
  let ?sc = "\<lparr>cfg_disabled = False, cfg_command = Some [], cfg_args = [], cfg_env = []\<rparr>"
  have e: "\<not> cfg_disabled ?sc" by simp
  have c: "cfg_command ?sc = None \<or> cfg_command ?sc = Some []" by simp
  from missing_command_skipped [OF e c, of example_world "''empty''" "[]" "[]" "[]" "[]"]
  have 1: "connect_servers example_world [(''empty'', ?sc)] [] []
     = (Returns [], [], [Print (MsgNoCommand ''empty'')])"
    by simp
  from missing_command_skipped [OF e c, of example_world "''empty''" "[example_entry ''other'']"
      "[]" "[]" "[example_entry ''good'']"]
  have 2: "fst (connect_servers example_world
       [example_entry ''good'', (''empty'', ?sc), example_entry ''other''] [] [])
     = fst (connect_servers example_world [example_entry ''good'', example_entry ''other''] [] [])"
    and 3: "library_calls (snd (snd (connect_servers example_world
       [example_entry ''good'', (''empty'', ?sc), example_entry ''other''] [] [])))
     = library_calls (snd (snd (connect_servers example_world
         [example_entry ''good'', example_entry ''other''] [] [])))"
    by simp_all
  from 1 2 3 show ?thesis by blast
qed

lemma attempted_Cons:
  "attempted (entry # servers) =
     (if \<not> cfg_disabled (snd entry) \<and> cfg_command (snd entry) \<noteq> None
         \<and> cfg_command (snd entry) \<noteq> Some []
      then entry # attempted servers else attempted servers)"
  by (cases entry) (simp add: attempted_def)

text \<open>
  When every \<^verbatim>\<open>connect\<close> the loop makes returns, the loop runs to its end: it returns the
  tools of the connections that succeeded and registers exactly those connections, both
  in the order of the attempts.
\<close>

lemma connect_servers_all_return:
  assumes "\<forall>entry\<in>set (attempted servers). \<exists>ok. fst (attempt w entry) = Returns ok"
  shows "fst (connect_servers w servers conns all_tools) =
           Returns (all_tools @ concat (map (\<lambda>entry. tools (fst (snd (attempt w entry))))
                                    (connected w servers)))
         \<and> fst (snd (connect_servers w servers conns all_tools)) =
           conns @ map (\<lambda>entry. fst (snd (attempt w entry))) (connected w servers)"
  using assms
proof (induction servers arbitrary: conns all_tools)
  case Nil
  show ?case by (simp add: connected_def attempted_def)
next
  case (Cons entry servers)
  obtain n s where entry: "entry = (n, s)" by (cases entry)
  consider (skipped) "cfg_disabled s \<or> cfg_command s = None \<or> cfg_command s = Some []"
    | (tried) "\<not> cfg_disabled s" "cfg_command s \<noteq> None" "cfg_command s \<noteq> Some []"
    by blast
  then show ?case
  proof cases
    case skipped
    then have same: "attempted (entry # servers) = attempted servers"
      by (auto simp: attempted_Cons entry)
    with Cons.prems have "\<forall>e\<in>set (attempted servers). \<exists>ok. fst (attempt w e) = Returns ok"
      by simp
    note ih = Cons.IH [OF this, of conns all_tools]
    have conn: "connected w (entry # servers) = connected w servers"
      by (simp add: connected_def same)
    from skipped have step:
      "fst (connect_servers w (entry # servers) conns all_tools)
         = fst (connect_servers w servers conns all_tools)"
      "fst (snd (connect_servers w (entry # servers) conns all_tools))
         = fst (snd (connect_servers w servers conns all_tools))"
      by (auto simp: entry case_prod_unfold)
    from ih show ?thesis by (simp only: conn step)
  next
    case tried
    then have more: "attempted (entry # servers) = entry # attempted servers"
      by (simp add: attempted_Cons entry)
    with Cons.prems obtain ok where ok: "fst (attempt w entry) = Returns ok"
      and rest: "\<forall>e\<in>set (attempted servers). \<exists>ok. fst (attempt w e) = Returns ok"
      by auto
    obtain c' ev where a: "attempt w entry = (Returns ok, c', ev)"
      using ok by (cases "attempt w entry") simp
    from tried have "connect_servers w (entry # servers) conns all_tools =
       (case attempt w entry of
          (Raises e, c', ev) \<Rightarrow> (Raises e, conns, ev)
        | (Returns ok, c', ev) \<Rightarrow>
            (case (if ok then connect_servers w servers (conns @ [c']) (all_tools @ tools c')
                   else connect_servers w servers conns all_tools) of
               (r, conns', ev') \<Rightarrow> (r, conns', ev @ ev')))"
      by (intro connect_servers_attempt) (simp_all add: entry)
    then have u: "connect_servers w (entry # servers) conns all_tools =
       (case (if ok then connect_servers w servers (conns @ [c']) (all_tools @ tools c')
              else connect_servers w servers conns all_tools) of
          (r, conns', ev') \<Rightarrow> (r, conns', ev @ ev'))"
      by (simp only: a prod.case outcome.case)
    show ?thesis
    proof (cases ok)
      case True
      with a have "connected w (entry # servers) = entry # connected w servers"
        by (simp add: connected_def more)
      with True a Cons.IH [OF rest, of "conns @ [c']" "all_tools @ tools c'"] show ?thesis
        by (simp add: u case_prod_unfold)
    next
      case False
      with a have "connected w (entry # servers) = connected w servers"
        by (simp add: connected_def more)
      with False a Cons.IH [OF rest, of conns all_tools] show ?thesis
        by (simp add: u case_prod_unfold)
    qed
  qed
qed

section \<open>\<^verbatim>\<open>load_mcp_tools_async\<close>: what a failing server costs the others\<close>

text \<open>
  When the library raises only errors of class \<^verbatim>\<open>Exception\<close> while a server is being
  connected, and closes what was opened for it, \<^verbatim>\<open>connect\<close> returns.
\<close>

lemma connect_try_kept:
  "name (fst (snd (connect_try w c))) = name c
   \<and> server_params_of (fst (snd (connect_try w c))) = server_params_of c"
  by (simp add: connect_try_def server_params_of_def Let_def split: outcome.splits)

lemma connect_try_stack:
  "exit_stack (fst (snd (connect_try w c))) = Some []
   \<or> exit_stack (fst (snd (connect_try w c))) = Some [StdioClient]
   \<or> exit_stack (fst (snd (connect_try w c))) = Some [ClientSession, StdioClient]"
  by (simp add: connect_try_def Let_def split: outcome.splits)

lemma connect_try_raises:
  assumes "connect_library_ok (server w (name c) (server_params_of c))"
    and "fst (connect_try w c) = Raises e"
  shows "is_Exception e"
proof -
  let ?b = "server w (name c) (server_params_of c)"
  from assms(1) have ok: "raises_Exception_only (b_stdio_client ?b)"
    "raises_Exception_only (b_client_session ?b)" "raises_Exception_only (b_initialize ?b)"
    "raises_Exception_only (b_list_tools ?b)"
    by (simp_all add: connect_library_ok_def)
  from assms(2) have "b_stdio_client ?b = Raises e \<or> b_client_session ?b = Raises e
      \<or> b_initialize ?b = Raises e \<or> b_list_tools ?b = Raises e"
    by (simp add: connect_try_def Let_def split: outcome.splits)
  with ok show ?thesis by auto
qed

lemma aclose_returns:
  assumes "connect_library_ok (server w (name c) (server_params_of c))"
    and "rs = [] \<or> rs = [StdioClient] \<or> rs = [ClientSession, StdioClient]"
  shows "aclose w c rs = Returns ()"
  using assms by (auto simp: aclose_def connect_library_ok_def)

lemma connect_returns:
  assumes "connect_library_ok (server w (name c) (server_params_of c))"
  shows "\<exists>ok. fst (connect w c) = Returns ok"
proof -
  obtain r c' ev where t: "connect_try w c = (r, c', ev)" by (cases "connect_try w c")
  show ?thesis
  proof (cases r)
    case (Returns u)
    with t have "fst (connect w c) = Returns True" by (simp add: connect_def)
    then show ?thesis by blast
  next
    case (Raises e)
    with t connect_try_raises [OF assms, of e] have e: "is_Exception e" by simp
    from t connect_try_kept [of w c] have k: "name c' = name c"
      "server_params_of c' = server_params_of c" by simp_all
    from t connect_try_stack [of w c] obtain rs where rs: "exit_stack c' = Some rs"
      and shape: "rs = [] \<or> rs = [StdioClient] \<or> rs = [ClientSession, StdioClient]"
      by auto
    from assms k have "connect_library_ok (server w (name c') (server_params_of c'))" by simp
    from aclose_returns [OF this shape] have "aclose w c' rs = Returns ()" .
    with t Raises e rs have "fst (connect w c) = Returns False" by (simp add: connect_def Let_def)
    then show ?thesis by blast
  qed
qed

lemma attempt_returns:
  assumes "connect_library_ok (launched w entry)"
  shows "\<exists>ok. fst (attempt w entry) = Returns ok"
proof -
  let ?c = "MCPServerConnection (fst entry) (the (cfg_command (snd entry)))
              (cfg_args (snd entry)) (Some (resolve_env (environ w) (cfg_env (snd entry)) []))"
  have "name ?c = fst entry" by (simp add: MCPServerConnection_def)
  with assms have "connect_library_ok (server w (name ?c) (server_params_of ?c))"
    by (simp add: launched_def)
  from connect_returns [OF this] show ?thesis by (simp add: attempt_def)
qed


text \<open>The first \<^verbatim>\<open>connect\<close> that raises ends the loop with its error.\<close>

lemma connect_servers_abort:
  assumes "\<forall>x\<in>set (attempted pre). \<exists>ok. fst (attempt w x) = Returns ok"
    and "entry \<in> set (attempted [entry])" and "fst (attempt w entry) = Raises e"
  shows "fst (connect_servers w (pre @ entry # rest) conns all_tools) = Raises e"
  using assms(1)
proof (induction pre arbitrary: conns all_tools)
  case Nil
  obtain n s where en: "entry = (n, s)" by (cases entry)
  from assms(2) have "\<not> cfg_disabled s \<and> cfg_command s \<noteq> None \<and> cfg_command s \<noteq> Some []"
    by (simp add: attempted_def en split: if_splits)
  then have t: "\<not> cfg_disabled (snd entry)" "cfg_command (snd entry) \<noteq> None"
    "cfg_command (snd entry) \<noteq> Some []"
    by (simp_all add: en)
  obtain c' ev where "attempt w entry = (Raises e, c', ev)"
    using assms(3) by (cases "attempt w entry") simp
  then show ?case
    by (simp only: append_Nil connect_servers_attempt [OF t] prod.case outcome.case fst_conv)
next
  case (Cons p pre)
  show ?case
  proof (cases "\<not> cfg_disabled (snd p) \<and> cfg_command (snd p) \<noteq> None \<and> cfg_command (snd p) \<noteq> Some []")
    case True
    then have t: "\<not> cfg_disabled (snd p)" "cfg_command (snd p) \<noteq> None"
      "cfg_command (snd p) \<noteq> Some []" by simp_all
    from True Cons.prems obtain ok where ok: "fst (attempt w p) = Returns ok"
      and rest: "\<forall>x\<in>set (attempted pre). \<exists>ok. fst (attempt w x) = Returns ok"
      by (auto simp: attempted_Cons)
    obtain c' ev where a: "attempt w p = (Returns ok, c', ev)"
      using ok by (cases "attempt w p") simp
    have u: "connect_servers w (p # (pre @ entry # rest)) conns all_tools =
       (case (if ok then connect_servers w (pre @ entry # rest) (conns @ [c']) (all_tools @ tools c')
              else connect_servers w (pre @ entry # rest) conns all_tools) of
          (r, conns', ev') \<Rightarrow> (r, conns', ev @ ev'))"
      by (simp only: connect_servers_attempt [OF t] a prod.case outcome.case)
    show ?thesis
    proof (cases ok)
      case True
      with Cons.IH [OF rest, of "conns @ [c']" "all_tools @ tools c'"] show ?thesis
        by (simp only: append_Cons u) (simp add: case_prod_unfold)
    next
      case False
      with Cons.IH [OF rest, of conns all_tools] show ?thesis
        by (simp only: append_Cons u) (simp add: case_prod_unfold)
    qed
  next
    case False
    with Cons.prems have rest: "\<forall>x\<in>set (attempted pre). \<exists>ok. fst (attempt w x) = Returns ok"
      by (auto simp: attempted_Cons)
    obtain n s where p: "p = (n, s)" by (cases p)
    from False have "fst (connect_servers w (p # (pre @ entry # rest)) conns all_tools)
         = fst (connect_servers w (pre @ entry # rest) conns all_tools)"
      by (auto simp: p case_prod_unfold)
    with Cons.IH [OF rest, of conns all_tools] show ?thesis by simp
  qed
qed

text \<open>
  C1, as amended. For every list of server entries: if each \<^verbatim>\<open>connect\<close> that is attempted
  returns (\<^verbatim>\<open>True\<close> or \<^verbatim>\<open>False\<close>), \<^verbatim>\<open>load_mcp_tools_async\<close> raises nothing and returns
  exactly the tools of the connections whose \<^verbatim>\<open>connect\<close> returned \<^verbatim>\<open>True\<close>, in the order
  of the attempts, and appends exactly those connections to \<^verbatim>\<open>_mcp_connections\<close>; a
  \<^verbatim>\<open>connect\<close> that returns \<^verbatim>\<open>False\<close> takes nothing from what the other servers give.
  Each attempted \<^verbatim>\<open>connect\<close> does return when the protocol library raises only errors of
  class \<^verbatim>\<open>Exception\<close> during it and closes what it had opened. A \<^verbatim>\<open>connect\<close> that raises
  an error outside \<^verbatim>\<open>Exception\<close> ends the load: \<^verbatim>\<open>load_mcp_tools_async\<close> raises that
  error.
\<close>

theorem load_isolates_connect_failures:
  "((\<forall>entry\<in>set (attempted mcp_servers). connect_library_ok (launched w entry)) \<longrightarrow>
      (\<forall>entry\<in>set (attempted mcp_servers). \<exists>ok. fst (attempt w entry) = Returns ok))
   \<and> ((\<forall>entry\<in>set (attempted mcp_servers). \<exists>ok. fst (attempt w entry) = Returns ok) \<longrightarrow>
        fst (load_mcp_tools_async w config_path (Config mcp_servers) conns) =
          Returns (concat (map (\<lambda>entry. tools (fst (snd (attempt w entry))))
                            (connected w mcp_servers)))
        \<and> fst (snd (load_mcp_tools_async w config_path (Config mcp_servers) conns)) =
          conns @ map (\<lambda>entry. fst (snd (attempt w entry))) (connected w mcp_servers))
   \<and> (\<forall>pre entry rest e.
        mcp_servers = pre @ entry # rest
        \<and> (\<forall>x\<in>set (attempted pre). \<exists>ok. fst (attempt w x) = Returns ok)
        \<and> entry \<in> set (attempted [entry])
        \<and> fst (attempt w entry) = Raises e \<and> \<not> is_Exception e \<longrightarrow>
        fst (load_mcp_tools_async w config_path (Config mcp_servers) conns) = Raises e)"
proof -
  have 1: "\<forall>entry\<in>set (attempted mcp_servers). \<exists>ok. fst (attempt w entry) = Returns ok"
    if "\<forall>entry\<in>set (attempted mcp_servers). connect_library_ok (launched w entry)"
    using that by (blast intro: attempt_returns)
  have 2: "fst (load_mcp_tools_async w config_path (Config mcp_servers) conns) =
          Returns (concat (map (\<lambda>entry. tools (fst (snd (attempt w entry))))
                            (connected w mcp_servers)))
        \<and> fst (snd (load_mcp_tools_async w config_path (Config mcp_servers) conns)) =
          conns @ map (\<lambda>entry. fst (snd (attempt w entry))) (connected w mcp_servers)"
    if h: "\<forall>entry\<in>set (attempted mcp_servers). \<exists>ok. fst (attempt w entry) = Returns ok"
  proof (cases "mcp_servers = []")
    case True
    then show ?thesis by (simp add: load_mcp_tools_async_def connected_def attempted_def)
  next
    case False
    obtain r conns' ev where c: "connect_servers w mcp_servers conns [] = (r, conns', ev)"
      by (cases "connect_servers w mcp_servers conns []")
    with connect_servers_all_return [OF h, of conns "[]"] False show ?thesis
      by (simp add: load_mcp_tools_async_def)
  qed
  have 3: "fst (load_mcp_tools_async w config_path (Config mcp_servers) conns) = Raises e"
    if a: "mcp_servers = pre @ entry # rest"
      "\<forall>x\<in>set (attempted pre). \<exists>ok. fst (attempt w x) = Returns ok"
      "entry \<in> set (attempted [entry])" "fst (attempt w entry) = Raises e" "\<not> is_Exception e"
    for pre entry rest e
  proof -
    from connect_servers_abort [OF a(2,3,4), of rest conns "[]"] a(1)
    have "fst (connect_servers w mcp_servers conns []) = Raises e" by simp
    then obtain conns' ev where "connect_servers w mcp_servers conns [] = (Raises e, conns', ev)"
      by (cases "connect_servers w mcp_servers conns []") simp
    with a(1,5) show ?thesis by (simp add: load_mcp_tools_async_def)
  qed
  show ?thesis
  proof (intro conjI impI allI)
    assume "\<forall>entry\<in>set (attempted mcp_servers). connect_library_ok (launched w entry)"
    then show "\<forall>entry\<in>set (attempted mcp_servers). \<exists>ok. fst (attempt w entry) = Returns ok"
      by (rule 1)
  next
    assume h: "\<forall>entry\<in>set (attempted mcp_servers). \<exists>ok. fst (attempt w entry) = Returns ok"
    from 2 [OF h]
    show "fst (load_mcp_tools_async w config_path (Config mcp_servers) conns) =
          Returns (concat (map (\<lambda>entry. tools (fst (snd (attempt w entry))))
                            (connected w mcp_servers)))"
      by (rule conjunct1)
    from 2 [OF h]
    show "fst (snd (load_mcp_tools_async w config_path (Config mcp_servers) conns)) =
          conns @ map (\<lambda>entry. fst (snd (attempt w entry))) (connected w mcp_servers)"
      by (rule conjunct2)
  next
    fix pre entry rest e
    assume "mcp_servers = pre @ entry # rest
        \<and> (\<forall>x\<in>set (attempted pre). \<exists>ok. fst (attempt w x) = Returns ok)
        \<and> entry \<in> set (attempted [entry])
        \<and> fst (attempt w entry) = Raises e \<and> \<not> is_Exception e"
    then have a: "mcp_servers = pre @ entry # rest"
      "\<forall>x\<in>set (attempted pre). \<exists>ok. fst (attempt w x) = Returns ok"
      "entry \<in> set (attempted [entry])" "fst (attempt w entry) = Raises e" "\<not> is_Exception e"
      by simp_all
    from 3 [OF a]
    show "fst (load_mcp_tools_async w config_path (Config mcp_servers) conns) = Raises e" .
  qed
qed


theorem load_isolates_connect_failures_witness:
  "fst (attempt example_world (example_entry ''refused'')) = Returns False
   \<and> fst (attempt example_world (example_entry ''good'')) = Returns True
   \<and> fst (load_mcp_tools_async example_world ''mcp.json''
        (Config [example_entry ''refused'', example_entry ''good'']) [])
     = Returns [\<lparr>t_name = ''search'', t_description = ''Search the web'', t_parameters = JObj [],
                 t_session = Session ''good''\<rparr>]
   \<and> fst (load_mcp_tools_async example_world ''mcp.json''
        (Config [example_entry ''good'', example_entry ''cancelled'']) [])
     = Raises (CancelledError [])"
proof -
  let ?servers = "[example_entry ''refused'', example_entry ''good'']"
  have a: "attempt example_world (example_entry ''refused'') =
      (Returns False,
       \<lparr>name = ''refused'', command = ''npx'', args = [''-y'', ''refused''], env = [],
        session = Some (Session ''refused''), exit_stack = None, tools = []\<rparr>,
       [EnterStdioClient ''refused''
          \<lparr>sp_command = ''npx'', sp_args = [''-y'', ''refused''], sp_env = None\<rparr>,
        EnterClientSession ''refused'', Initialize ''refused'',
        Print (MsgConnectFailed ''refused'' (OtherException ''handshake rejected'')),
        Aclose ''refused'' [ClientSession, StdioClient], Print MsgTraceback])"
    by (simp add: attempt_def connect_def connect_try_def aclose_def MCPServerConnection_def
          server_params_of_def example_defs Let_def)
  have b: "attempt example_world (example_entry ''good'') =
      (Returns True, ready_connection ''good'',
       [EnterStdioClient ''good''
          \<lparr>sp_command = ''npx'', sp_args = [''-y'', ''good''], sp_env = None\<rparr>,
        EnterClientSession ''good'', Initialize ''good'', ListTools ''good'',
        Print (MsgConnected ''good'' 1), Print (MsgTool ''search'' ''Search the web'')])"
    by (simp add: attempt_def connect_def connect_try_def aclose_def MCPServerConnection_def
          server_params_of_def wrap_tool_def tool_line_def example_defs Let_def)
  have c: "fst (attempt example_world (example_entry ''cancelled'')) = Raises (CancelledError [])"
    by (simp add: attempt_def connect_def connect_try_def aclose_def MCPServerConnection_def
          server_params_of_def example_defs Let_def)
  have att: "attempted ?servers = ?servers"
    by (simp add: attempted_def example_entry_def)
  have lib: "\<forall>entry\<in>set (attempted ?servers). connect_library_ok (launched example_world entry)"
  proof -
    have "connect_library_ok (launched example_world (example_entry ''refused''))"
      and "connect_library_ok (launched example_world (example_entry ''good''))"
      by (simp_all add: launched_def connect_library_ok_def example_defs)
    then show ?thesis by (simp add: att)
  qed
  note inst = load_isolates_connect_failures [of ?servers example_world "''mcp.json''" "[]"]
  from inst [THEN conjunct1, THEN mp, OF lib]
  have ret: "\<forall>entry\<in>set (attempted ?servers). \<exists>ok. fst (attempt example_world entry) = Returns ok" .
  have con: "connected example_world ?servers = [example_entry ''good'']"
    by (simp add: connected_def att a b)
  from inst [THEN conjunct2, THEN conjunct1, THEN mp, OF ret, THEN conjunct1]
  have 1: "fst (load_mcp_tools_async example_world ''mcp.json'' (Config ?servers) [])
     = Returns (tools (ready_connection ''good''))"
    by (simp add: con b)
  have s: "[example_entry ''good'', example_entry ''cancelled'']
           = [example_entry ''good''] @ example_entry ''cancelled'' # []"
    by simp
  have p: "\<forall>x\<in>set (attempted [example_entry ''good'']).
             \<exists>ok. fst (attempt example_world x) = Returns ok"
  proof -
    have "attempted [example_entry ''good''] = [example_entry ''good'']"
      by (simp add: attempted_def example_entry_def)
    moreover have "\<exists>ok. fst (attempt example_world (example_entry ''good'')) = Returns ok"
      by (auto simp: b)
    ultimately show ?thesis by simp
  qed
  have m: "example_entry ''cancelled'' \<in> set (attempted [example_entry ''cancelled''])"
    by (simp add: attempted_def example_entry_def)
  have n: "\<not> is_Exception (CancelledError [])" by simp
  from load_isolates_connect_failures
      [of "[example_entry ''good'', example_entry ''cancelled'']" example_world "''mcp.json''" "[]",
        THEN conjunct2, THEN conjunct2, THEN spec, THEN spec, THEN spec, THEN spec, THEN mp,
        OF conjI [OF s conjI [OF p conjI [OF m conjI [OF c n]]]]]
  have 2: "fst (load_mcp_tools_async example_world ''mcp.json''
        (Config [example_entry ''good'', example_entry ''cancelled'']) [])
     = Raises (CancelledError [])" .
  from a b 1 2 show ?thesis
    by (simp add: ready_connection_def wrap_tool_def search_tool_def)
qed

text \<open>
  C1 as stated fails: with one server whose \<^verbatim>\<open>connect\<close> returns \<^verbatim>\<open>False\<close> and one whose
  \<^verbatim>\<open>connect\<close> returns \<^verbatim>\<open>True\<close>, a third server during whose handshake the task is
  cancelled makes \<^verbatim>\<open>load_mcp_tools_async\<close> raise: neither \<^verbatim>\<open>except Exception\<close> (lines 153
  and 272) catches a \<^verbatim>\<open>CancelledError\<close>.
\<close>

theorem load_cancelled_counterexample:
  "fst (attempt example_world (example_entry ''refused'')) = Returns False
   \<and> fst (attempt example_world (example_entry ''good'')) = Returns True
   \<and> fst (load_mcp_tools_async example_world ''mcp.json''
        (Config [example_entry ''refused'', example_entry ''good'', example_entry ''cancelled'']) [])
     = Raises (CancelledError [])"
  by (simp add: load_mcp_tools_async_def attempt_def connect_def connect_try_def aclose_def
        MCPServerConnection_def server_params_of_def wrap_tool_def tool_line_def example_defs Let_def)

end
